theory Spec2Isabelle
  imports Complex_Main "HOL-Library.AList" "HOL-Library.Sublist"
begin

section \<open>Python values, exceptions and vectors\<close>

text \<open>
  The Python sources compute on floating-point numbers. They are idealised as real
  numbers throughout: rounding, overflow and the non-finite values are not represented.
  Where numpy would produce a non-finite value (a division by zero on arrays) the
  model says so at the place.

  Every exception the modelled code can raise is a value of \<open>py_error\<close>; a function
  that can raise returns \<open>py_error + 'a\<close> with \<open>Inl\<close> for the exception.
  \<open>AttributeError owner attr\<close> records the object whose attribute was read
  (\<open>NoneType\<close> for Python's \<open>None\<close>) and the attribute's name.
\<close>

datatype py_error =
    AttributeError string string
  | KeyError string
  | IndexError
  | TypeError
  | ValueError
  | ZeroDivisionError

type_synonym vec3 = "real \<times> real \<times> real"
type_synonym quat = "real \<times> real \<times> real \<times> real"

definition sub3 :: "vec3 \<Rightarrow> vec3 \<Rightarrow> vec3" where
  "sub3 a b = (case a of (ax, ay, az) \<Rightarrow> case b of (bx, by, bz) \<Rightarrow> (ax - bx, ay - by, az - bz))"

definition scale3 :: "vec3 \<Rightarrow> real \<Rightarrow> vec3" where
  "scale3 a d = (case a of (ax, ay, az) \<Rightarrow> (ax / d, ay / d, az / d))"

text \<open>\<open>np.linalg.norm\<close> on a 2-vector and on a 3-vector.\<close>

definition norm2 :: "real \<times> real \<Rightarrow> real" where
  "norm2 v = (case v of (x, y) \<Rightarrow> sqrt (x\<^sup>2 + y\<^sup>2))"

definition norm3 :: "vec3 \<Rightarrow> real" where
  "norm3 v = (case v of (x, y, z) \<Rightarrow> sqrt (x\<^sup>2 + y\<^sup>2 + z\<^sup>2))"

text \<open>\<open>np.dot\<close> on two 1-d arrays.\<close>

definition dot :: "real list \<Rightarrow> real list \<Rightarrow> real" where
  "dot xs ys = sum_list (map2 (*) xs ys)"

text \<open>\<open>np.sum((p - q)**2)\<close> on two quaternions.\<close>

definition quat_sq_dist :: "quat \<Rightarrow> quat \<Rightarrow> real" where
  "quat_sq_dist p q =
     (case p of (p0, p1, p2, p3) \<Rightarrow> case q of (q0, q1, q2, q3) \<Rightarrow>
        (p0 - q0)\<^sup>2 + (p1 - q1)\<^sup>2 + (p2 - q2)\<^sup>2 + (p3 - q3)\<^sup>2)"

section \<open>The environment the task and the sensors read\<close>

text \<open>
  The environment, its robot and the physics client are not part of these sources; the
  task and the sensors only read them. They are records of what those reads return.
  A contact point is the tuple of the physics client; the code reads its entries 2 (the
  other body) and 3 (the link of the robot). A joint state is the client's 4-tuple; the
  code reads its entry 2 (the reaction forces).
\<close>

record robot =
  quadruped :: nat
  foot_link_ids :: "int list"
  GetBasePosition :: vec3
  GetBaseOrientation :: quat
  GetMotorTorques :: "real list"

record contact =
  bodyUniqueIdB :: int
  linkIndexA :: int

record joint_state =
  jointPosition :: real
  jointVelocity :: real
  jointReactionForces :: "real list"
  appliedJointMotorTorque :: real

record pybullet_client =
  getBasePositionAndOrientation :: "nat \<Rightarrow> vec3 \<times> quat"
  getMatrixFromQuaternion :: "quat \<Rightarrow> real list"
  getContactPoints :: "nat \<Rightarrow> contact list"
  getJointStates :: "nat \<Rightarrow> nat list \<Rightarrow> joint_state list"

text \<open>
  The world dictionary, with the keys the code reads; \<open>None\<close> is an absent key.
  The code reads it as \<open>env._world_dict\<close> and as \<open>env.world_dict\<close>: one mapping.
\<close>

record world_dict =
  goal_pos :: "vec3 option"
  subgoals :: "vec3 list option"
  subgoals_achieved :: "bool list option"
  ground :: "int option"
  terrain :: "int option"

record env =
  robot :: robot
  client :: pybullet_client
  world :: world_dict
  last_action :: "real list"

text \<open>
  Objects are shared by reference: the task and the sensors keep the environment they
  were given and read its current state later. The store maps an address to the
  environment that lives there.
\<close>

type_synonym store = "nat \<Rightarrow> env"

section \<open>GoalTask\<close>

text \<open>
  The attributes of a \<open>GoalTask\<close>. The last three do not exist until \<open>reset\<close>
  assigns them: \<open>None\<close> is the missing attribute.
\<close>

record goal_task =
  subgoal_enabled :: bool
  goal_coeff :: real
  energy_weight :: real
  move_forward_coeff :: real
  alive_reward :: real
  fall_reward :: real
  time_step :: real
  num_action_repeat :: int
  z_constrain :: bool
  other_direction_penalty :: real
  z_penalty :: real
  init_orientation :: "quat option"
  orientation_penalty :: real
  height_fall_coeff :: real
  target_vel :: "real option"
  check_contact :: bool
  target_vel_dir :: "real \<times> real"
  env_ref :: "nat option"
  last_base_pos :: "vec3 option"
  current_base_pos :: "vec3 option"

text \<open>\<open>GoalTask.__init__\<close>, with its keyword arguments in the source's order.\<close>

definition GoalTask_init ::
  "bool \<Rightarrow> real \<Rightarrow> real \<Rightarrow> real \<Rightarrow> real \<Rightarrow> int \<Rightarrow> real \<Rightarrow> real \<Rightarrow> real \<Rightarrow>
   real option \<Rightarrow> bool \<Rightarrow> real \<times> real \<Rightarrow> real \<Rightarrow> bool \<Rightarrow> goal_task" where
  "GoalTask_init z_constrain' other_direction_penalty' z_penalty' orientation_penalty'
     time_step_s num_action_repeat' height_fall_coeff' alive_reward' fall_reward'
     target_vel' check_contact' target_vel_dir' goal_coeff' subgoal' =
   \<lparr> subgoal_enabled = subgoal',
     goal_coeff = goal_coeff',
     energy_weight = - 0.005,
     move_forward_coeff = 1,
     alive_reward = alive_reward',
     fall_reward = fall_reward',
     time_step = time_step_s,
     num_action_repeat = num_action_repeat',
     z_constrain = z_constrain',
     other_direction_penalty = other_direction_penalty',
     z_penalty = z_penalty',
     init_orientation = Some (0, 0, 0, 1),
     orientation_penalty = orientation_penalty',
     height_fall_coeff = height_fall_coeff',
     target_vel = target_vel',
     check_contact = check_contact',
     target_vel_dir = target_vel_dir',
     env_ref = None,
     last_base_pos = None,
     current_base_pos = None \<rparr>"

text \<open>The constructor with every argument at its default.\<close>

definition GoalTask_default :: goal_task where
  "GoalTask_default =
     GoalTask_init False 0 0 0 0.01 10 0.3 0.1 0 None False (1, 0) 10 False"

definition GoalTask_reset :: "goal_task \<Rightarrow> store \<Rightarrow> nat \<Rightarrow> goal_task" where
  "GoalTask_reset t h e =
     t\<lparr> env_ref := Some e,
        last_base_pos := Some (GetBasePosition (robot (h e))),
        current_base_pos := Some (GetBasePosition (robot (h e))) \<rparr>"

definition GoalTask_update :: "goal_task \<Rightarrow> store \<Rightarrow> nat \<Rightarrow> py_error + goal_task" where
  "GoalTask_update t h e =
     (case current_base_pos t of
        None \<Rightarrow> Inl (AttributeError ''GoalTask'' ''current_base_pos'')
      | Some c \<Rightarrow>
          Inr (t\<lparr> last_base_pos := Some c,
                  current_base_pos := Some (GetBasePosition (robot (h e))) \<rparr>))"

text \<open>The elapsed time of one control step, \<open>self._time_step * self.num_action_repeat\<close>.\<close>

definition elapsed :: "goal_task \<Rightarrow> real" where
  "elapsed t = time_step t * of_int (num_action_repeat t)"

text \<open>
  \<open>_calc_reward_root_velocity\<close>. The base positions are tuples of Python floats, so a
  zero elapsed time raises. \<open>np.clip\<close> with only \<open>a_max\<close> is a minimum; with
  \<open>target_vel\<close> left at \<open>None\<close> the clip or the square that follows raises (which
  of the two depends on the numpy version; the model says \<open>TypeError\<close>). The base
  velocity the code asks the client for is not used.
\<close>

definition calc_reward_root_velocity :: "goal_task \<Rightarrow> store \<Rightarrow> py_error + real" where
  "calc_reward_root_velocity t h =
     (case env_ref t of
        None \<Rightarrow> Inl (AttributeError ''GoalTask'' ''_env'')
      | Some a \<Rightarrow>
     (case current_base_pos t of
        None \<Rightarrow> Inl (AttributeError ''GoalTask'' ''current_base_pos'')
      | Some (cx, cy, cz) \<Rightarrow>
     (case last_base_pos t of
        None \<Rightarrow> Inl (AttributeError ''GoalTask'' ''last_base_pos'')
      | Some (lx, ly, lz) \<Rightarrow>
          if elapsed t = 0 then Inl ZeroDivisionError
          else
            let x_speed = (cx - lx) / elapsed t;
                y_speed = (cy - ly) / elapsed t;
                z_speed = (cz - lz) / elapsed t;
                xy_speed = norm2 (x_speed, y_speed)
            in (case target_vel t of
                  None \<Rightarrow> Inl TypeError
                | Some tv \<Rightarrow>
                    let xy_speed = min xy_speed tv;
                        along_reward = tv\<^sup>2 - (xy_speed - tv)\<^sup>2;
                        forward_reward = along_reward - z_penalty t * z_speed\<^sup>2
                    in Inr forward_reward))))"

text \<open>
  \<open>_calc_reward_goal_dist\<close>. The two distances are numpy floats: with a zero elapsed
  time numpy only warns and returns an infinity or a NaN, which the reals do not have;
  the model stops there with the error Python's own floats raise.
\<close>

definition calc_reward_goal_dist :: "goal_task \<Rightarrow> store \<Rightarrow> py_error + real" where
  "calc_reward_goal_dist t h =
     (case env_ref t of
        None \<Rightarrow> Inl (AttributeError ''GoalTask'' ''_env'')
      | Some a \<Rightarrow>
     (case goal_pos (world (h a)) of
        None \<Rightarrow> Inl (KeyError ''goal_pos'')
      | Some g \<Rightarrow>
     (case last_base_pos t of
        None \<Rightarrow> Inl (AttributeError ''GoalTask'' ''last_base_pos'')
      | Some l \<Rightarrow>
     (case current_base_pos t of
        None \<Rightarrow> Inl (AttributeError ''GoalTask'' ''current_base_pos'')
      | Some c \<Rightarrow>
          let last_dist = norm3 (sub3 g l);
              current_dist = norm3 (sub3 g c)
          in if elapsed t = 0 then Inl ZeroDivisionError
             else Inr ((last_dist - current_dist) / elapsed t)))))"

text \<open>
  \<open>_calc_reward_subgoal\<close>: the loop over \<open>enumerate(subgoal_pos)\<close>, from index \<open>i\<close>
  on, threading the world dictionary (whose flags it sets) and the reward so far. An
  exception leaves the flags set so far in place.
\<close>

fun subgoal_loop ::
  "vec3 option \<Rightarrow> nat \<Rightarrow> vec3 list \<Rightarrow> world_dict \<Rightarrow> int \<Rightarrow> world_dict \<times> (py_error + int)" where
  "subgoal_loop cur i [] w r = (w, Inr r)"
| "subgoal_loop cur i (pos # ps) w r =
     (case cur of
        None \<Rightarrow> (w, Inl (AttributeError ''GoalTask'' ''current_base_pos''))
      | Some c \<Rightarrow>
          if norm3 (sub3 c pos) < 1 then
            (case subgoals_achieved w of
               None \<Rightarrow> (w, Inl (KeyError ''subgoals_achieved''))
             | Some fl \<Rightarrow>
                 if i < length fl then
                   (if \<not> fl ! i
                    then subgoal_loop cur (Suc i) ps
                           (w\<lparr> subgoals_achieved := Some (fl[i := True]) \<rparr>) (r + 5)
                    else subgoal_loop cur (Suc i) ps w r)
                 else (w, Inl IndexError))
          else subgoal_loop cur (Suc i) ps w r)"

definition calc_reward_subgoal :: "goal_task \<Rightarrow> store \<Rightarrow> store \<times> (py_error + int)" where
  "calc_reward_subgoal t h =
     (case env_ref t of
        None \<Rightarrow> (h, Inl (AttributeError ''GoalTask'' ''_env''))
      | Some a \<Rightarrow>
     (case subgoals (world (h a)) of
        None \<Rightarrow> (h, Inl (KeyError ''subgoals''))
      | Some subgoal_pos \<Rightarrow>
          (case subgoal_loop (current_base_pos t) 0 subgoal_pos (world (h a)) 0 of
             (w, res) \<Rightarrow> (h(a := (h a)\<lparr> world := w \<rparr>), res))))"

definition calc_reward_rotation :: "goal_task \<Rightarrow> store \<Rightarrow> py_error + real" where
  "calc_reward_rotation t h =
     (case env_ref t of
        None \<Rightarrow> Inl (AttributeError ''GoalTask'' ''_env'')
      | Some a \<Rightarrow>
          let rot_quat = GetBaseOrientation (robot (h a))
          in (case init_orientation t of
                None \<Rightarrow> Inr 0
              | Some q \<Rightarrow> Inr (quat_sq_dist q rot_quat)))"

text \<open>
  The two loops of \<open>done\<close> over the contact points. The source compares body ids with
  \<open>is\<close>; on the small integers that body ids are, that is equality. The first loop
  flags a contact with the ground (or the terrain, when the world has one) of a link
  that is not a foot; the second flags any contact with a body that is not the ground.
\<close>

fun contact_loop1 :: "world_dict \<Rightarrow> int list \<Rightarrow> contact list \<Rightarrow> py_error + bool" where
  "contact_loop1 w feet [] = Inr False"
| "contact_loop1 w feet (c # cs) =
     (case ground w of
        None \<Rightarrow> Inl (KeyError ''ground'')
      | Some g \<Rightarrow>
          if bodyUniqueIdB c = g \<or> (terrain w \<noteq> None \<and> Some (bodyUniqueIdB c) = terrain w)
          then (if linkIndexA c \<notin> set feet then Inr True else contact_loop1 w feet cs)
          else contact_loop1 w feet cs)"

fun contact_loop2 :: "world_dict \<Rightarrow> bool \<Rightarrow> contact list \<Rightarrow> py_error + bool" where
  "contact_loop2 w contact_done [] = Inr contact_done"
| "contact_loop2 w contact_done (c # cs) =
     (case ground w of
        None \<Rightarrow> Inl (KeyError ''ground'')
      | Some g \<Rightarrow>
          if bodyUniqueIdB c \<noteq> g then Inr True else contact_loop2 w contact_done cs)"

text \<open>
  \<open>done\<close>. The argument is deleted and the bound environment is read instead. The
  speed is computed on numpy arrays: with a zero elapsed time its norm is an infinity or
  a NaN and the comparison with 0.05 is false.
\<close>

definition GoalTask_done :: "goal_task \<Rightarrow> store \<Rightarrow> nat \<Rightarrow> py_error + bool" where
  "GoalTask_done t h arg =
     (case env_ref t of
        None \<Rightarrow> Inl (AttributeError ''GoalTask'' ''_env'')
      | Some a \<Rightarrow>
          let env = h a;
              pyb = client env;
              (root_pos_sim, root_rot_sim) =
                 getBasePositionAndOrientation pyb (quadruped (robot env));
              rot_quat = GetBaseOrientation (robot env);
              rot_mat = getMatrixFromQuaternion pyb rot_quat
          in if rot_mat = [] then Inl IndexError
             else
               let rot_fall = last rot_mat < 0.6;
                   height = snd (snd root_pos_sim);
                   height_fall = height < height_fall_coeff t;
                   height_fall =
                     (if z_constrain t
                      then height < height_fall_coeff t \<or> height > 0.8
                      else height_fall)
               in if check_contact t then
                    (let contacts = getContactPoints pyb (quadruped (robot env))
                     in case contact_loop1 (world env) (foot_link_ids (robot env)) contacts of
                          Inl e \<Rightarrow> Inl e
                        | Inr contact_done \<Rightarrow>
                     (case contact_loop2 (world env) contact_done contacts of
                          Inl e \<Rightarrow> Inl e
                        | Inr contact_done \<Rightarrow>
                     (case current_base_pos t of
                          None \<Rightarrow> Inl (AttributeError ''GoalTask'' ''current_base_pos'')
                        | Some c \<Rightarrow>
                     (case last_base_pos t of
                          None \<Rightarrow> Inl (AttributeError ''GoalTask'' ''last_base_pos'')
                        | Some l \<Rightarrow>
                            let speed = scale3 (sub3 c l) (elapsed t);
                                contact_done =
                                  (contact_done \<and> elapsed t \<noteq> 0 \<and> norm3 speed \<le> 0.05)
                            in Inr (height_fall \<or> rot_fall \<or> contact_done)))))
                  else Inr (height_fall \<or> rot_fall \<or> False))"

text \<open>The energy term of \<open>reward\<close>: \<open>np.dot(torques, torques) * self._time_step\<close>.\<close>

definition energy_reward :: "goal_task \<Rightarrow> env \<Rightarrow> real" where
  "energy_reward t env =
     dot (GetMotorTorques (robot env)) (GetMotorTorques (robot env)) * time_step t"

text \<open>
  \<open>reward\<close>. The argument is deleted and the bound environment is read instead. The
  store is returned as the subgoal computation left it, also when a later step raises.
\<close>

definition GoalTask_reward :: "goal_task \<Rightarrow> store \<Rightarrow> nat \<Rightarrow> store \<times> (py_error + real)" where
  "GoalTask_reward t h arg =
     (case env_ref t of
        None \<Rightarrow> (h, Inl (AttributeError ''GoalTask'' ''_env''))
      | Some a \<Rightarrow>
          let energy = energy_reward t (h a)
          in (case calc_reward_root_velocity t h of
                Inl e \<Rightarrow> (h, Inl e)
              | Inr move_forward_reward \<Rightarrow>
             (case calc_reward_rotation t h of
                Inl e \<Rightarrow> (h, Inl e)
              | Inr orientation_reward \<Rightarrow>
             (case calc_reward_goal_dist t h of
                Inl e \<Rightarrow> (h, Inl e)
              | Inr goal_reward \<Rightarrow>
             (case (if subgoal_enabled t then calc_reward_subgoal t h else (h, Inr 0)) of
                (h', Inl e) \<Rightarrow> (h', Inl e)
              | (h', Inr subgoal_reward) \<Rightarrow>
                  let reward =
                        goal_reward * goal_coeff t
                        + move_forward_reward * move_forward_coeff t
                        + energy * energy_weight t
                        - orientation_penalty t * orientation_reward
                        + alive_reward t + of_int subgoal_reward
                  in (case GoalTask_done t h' arg of
                        Inl e \<Rightarrow> (h', Inl e)
                      | Inr d \<Rightarrow>
                          (h', Inr (if d then reward + fall_reward t else reward))))))))"

text \<open>
  The horizontal speed the reward is computed from: the norm of the \<open>x\<close> and \<open>y\<close>
  position deltas over the elapsed time, before the clip.
\<close>

definition horizontal_speed :: "goal_task \<Rightarrow> real" where
  "horizontal_speed t =
     (case (current_base_pos t, last_base_pos t) of
        (Some (cx, cy, cz), Some (lx, ly, lz)) \<Rightarrow>
          norm2 ((cx - lx) / elapsed t, (cy - ly) / elapsed t)
      | _ \<Rightarrow> 0)"

text \<open>
  The vertical speed the \<open>z\<close> penalty is computed from, and the speed of the base
  in all three dimensions that \<open>done\<close> compares with 0.05.
\<close>

definition vertical_speed :: "goal_task \<Rightarrow> real" where
  "vertical_speed t =
     (case (current_base_pos t, last_base_pos t) of
        (Some (cx, cy, cz), Some (lx, ly, lz)) \<Rightarrow> (cz - lz) / elapsed t
      | _ \<Rightarrow> 0)"

definition base_speed :: "goal_task \<Rightarrow> real" where
  "base_speed t =
     (case (current_base_pos t, last_base_pos t) of
        (Some c, Some l) \<Rightarrow> norm3 (scale3 (sub3 c l) (elapsed t))
      | _ \<Rightarrow> 0)"

text \<open>
  What \<open>done\<close> reads of the simulator: the height of the base, the last entry of the
  rotation matrix, and whether the contact loops flag a contact. The two loops together
  flag a contact with a body other than the ground, or of a link that is not a foot.
\<close>

definition base_height :: "env \<Rightarrow> real" where
  "base_height env =
     snd (snd (fst (getBasePositionAndOrientation (client env) (quadruped (robot env)))))"

definition up_component :: "env \<Rightarrow> real" where
  "up_component env =
     last (getMatrixFromQuaternion (client env) (GetBaseOrientation (robot env)))"

definition flagged_contact :: "env \<Rightarrow> bool" where
  "flagged_contact env =
     (\<exists>c \<in> set (getContactPoints (client env) (quadruped (robot env))).
        Some (bodyUniqueIdB c) \<noteq> ground (world env) \<or>
        linkIndexA c \<notin> set (foot_link_ids (robot env)))"

text \<open>
  The termination condition in the words of the specification: the height below the
  fall threshold, the up component below 0.6, or, with contact checking, a flagged
  contact at a horizontal speed of at most 0.05.
\<close>

definition done_as_specified :: "goal_task \<Rightarrow> env \<Rightarrow> bool" where
  "done_as_specified t env =
     (base_height env < height_fall_coeff t \<or>
      up_component env < 0.6 \<or>
      (check_contact t \<and> flagged_contact env \<and> horizontal_speed t \<le> 0.05))"

subsection \<open>Episodes\<close>

text \<open>
  The achieved flag of subgoal \<open>i\<close> is set in a world dictionary, and in the
  environment at address \<open>a\<close> of a store.
\<close>

definition flag_set :: "world_dict \<Rightarrow> nat \<Rightarrow> bool" where
  "flag_set w i =
     (case subgoals_achieved w of None \<Rightarrow> False | Some fl \<Rightarrow> i < length fl \<and> fl ! i)"

definition achieved :: "store \<Rightarrow> nat \<Rightarrow> nat \<Rightarrow> bool" where
  "achieved h a i = flag_set (world (h a)) i"

text \<open>
  What happens during an episode: a call of one of the task's methods (\<open>Invoke\<close> is
  \<open>__call__\<close>, which is \<open>reward\<close>), or the simulator
  moving on (the robot and the client at an address read differently afterwards; the
  world dictionary is not the simulator's to change). A call that raises leaves the task
  as it was and keeps what it had written to the store.
\<close>

datatype task_call =
    Invoke nat | Reset nat | Update nat | Done nat | Reward nat | GetPybulletClient
  | CalcRewardGoalDist | CalcRewardSubgoal | CalcRewardRootVelocity | CalcRewardRotation

datatype event = Call task_call | Sim nat robot pybullet_client

fun call_step :: "task_call \<Rightarrow> goal_task \<times> store \<Rightarrow> goal_task \<times> store" where
  "call_step (Invoke e) (t, h) = (t, fst (GoalTask_reward t h e))"
| "call_step (Reset e) (t, h) = (GoalTask_reset t h e, h)"
| "call_step (Update e) (t, h) =
     (case GoalTask_update t h e of Inl _ \<Rightarrow> (t, h) | Inr t' \<Rightarrow> (t', h))"
| "call_step (Done e) (t, h) = (t, h)"
| "call_step (Reward e) (t, h) = (t, fst (GoalTask_reward t h e))"
| "call_step GetPybulletClient (t, h) = (t, h)"
| "call_step CalcRewardGoalDist (t, h) = (t, h)"
| "call_step CalcRewardSubgoal (t, h) = (t, fst (calc_reward_subgoal t h))"
| "call_step CalcRewardRootVelocity (t, h) = (t, h)"
| "call_step CalcRewardRotation (t, h) = (t, h)"

fun event_step :: "goal_task \<times> store \<Rightarrow> event \<Rightarrow> goal_task \<times> store" where
  "event_step (t, h) (Call c) = call_step c (t, h)"
| "event_step (t, h) (Sim a r cl) = (t, h(a := (h a)\<lparr> robot := r, client := cl \<rparr>))"

definition run_events :: "event list \<Rightarrow> goal_task \<times> store \<Rightarrow> goal_task \<times> store" where
  "run_events es s = foldl event_step s es"

section \<open>Sensors\<close>

text \<open>
  An attribute of a Python object: not assigned yet, assigned \<open>None\<close>, or assigned an
  object.
\<close>

datatype 'a attr = Unset | PyNone | Obj 'a

text \<open>
  What a sensor's constructor hands to the constructor of its base class
  \<open>BoxSpaceSensor\<close>: the name, the declared shape and the bounds (\<open>None\<close> where the
  constructor passes none). The base class is not part of these sources.
\<close>

record box_space =
  box_name :: string
  box_shape :: "nat list"
  box_lower_bound :: "real option"
  box_upper_bound :: "real option"

subsection \<open>LastActionSensor\<close>

record last_action_sensor =
  las_num_actions :: nat
  las_env :: "nat attr"
  las_box :: box_space

definition LastActionSensor_init :: "nat \<Rightarrow> real \<Rightarrow> real \<Rightarrow> string \<Rightarrow> last_action_sensor" where
  "LastActionSensor_init num_actions lower_bound upper_bound name =
     \<lparr> las_num_actions = num_actions,
       las_env = PyNone,
       las_box = \<lparr> box_name = name, box_shape = [num_actions],
                   box_lower_bound = Some lower_bound,
                   box_upper_bound = Some upper_bound \<rparr> \<rparr>"

definition LastActionSensor_on_reset :: "last_action_sensor \<Rightarrow> nat \<Rightarrow> last_action_sensor" where
  "LastActionSensor_on_reset s e = s\<lparr> las_env := Obj e \<rparr>"

definition LastActionSensor_get_observation ::
  "last_action_sensor \<Rightarrow> store \<Rightarrow> py_error + real list" where
  "LastActionSensor_get_observation s h =
     (case las_env s of
        Unset \<Rightarrow> Inl (AttributeError ''LastActionSensor'' ''_env'')
      | PyNone \<Rightarrow> Inl (AttributeError ''NoneType'' ''last_action'')
      | Obj a \<Rightarrow> Inr (last_action (h a)))"

subsection \<open>GoalPosSensor\<close>

record goal_pos_sensor =
  gps_goal_dim :: nat
  gps_env :: "nat attr"
  gps_box :: box_space

definition GoalPosSensor_init :: "nat \<Rightarrow> string \<Rightarrow> goal_pos_sensor" where
  "GoalPosSensor_init goal_dim name =
     \<lparr> gps_goal_dim = goal_dim,
       gps_env = PyNone,
       gps_box = \<lparr> box_name = name, box_shape = [goal_dim * 2],
                   box_lower_bound = None, box_upper_bound = None \<rparr> \<rparr>"

definition GoalPosSensor_on_reset :: "goal_pos_sensor \<Rightarrow> nat \<Rightarrow> goal_pos_sensor" where
  "GoalPosSensor_on_reset s e = s\<lparr> gps_env := Obj e \<rparr>"

definition list3 :: "vec3 \<Rightarrow> real list" where
  "list3 v = (case v of (x, y, z) \<Rightarrow> [x, y, z])"

definition GoalPosSensor_get_observation ::
  "goal_pos_sensor \<Rightarrow> store \<Rightarrow> py_error + real list" where
  "GoalPosSensor_get_observation s h =
     (case gps_env s of
        Unset \<Rightarrow> Inl (AttributeError ''GoalPosSensor'' ''_env'')
      | PyNone \<Rightarrow> Inl (AttributeError ''NoneType'' ''_robot'')
      | Obj a \<Rightarrow>
          (case goal_pos (world (h a)) of
             None \<Rightarrow> Inl (KeyError ''goal_pos'')
           | Some g \<Rightarrow> Inr (list3 (GetBasePosition (robot (h a))) @ list3 g)))"

subsection \<open>ForceSensor\<close>

text \<open>
  \<open>ForceSensor\<close> reads \<open>self._robot\<close>, which none of its own methods assigns. Whatever
  the constructor of the base class leaves in that attribute is the first argument of
  the model's constructor. The base constructor is given the name, the shape and the
  data type, and no robot. The \<open>goal_dim\<close> argument is not used by the source.
\<close>

record force_sensor =
  fs_env :: "nat attr"
  feet_id :: "nat list"
  fs_robot :: "robot attr"
  fs_box :: box_space

definition ForceSensor_init :: "robot attr \<Rightarrow> nat \<Rightarrow> string \<Rightarrow> force_sensor" where
  "ForceSensor_init base_robot goal_dim name =
     \<lparr> fs_env = PyNone,
       feet_id = map (\<lambda>i. 2 + 3 * i) [0..<4],
       fs_robot = base_robot,
       fs_box = \<lparr> box_name = name, box_shape = [24],
                  box_lower_bound = None, box_upper_bound = None \<rparr> \<rparr>"

definition ForceSensor_on_reset :: "force_sensor \<Rightarrow> nat \<Rightarrow> force_sensor" where
  "ForceSensor_on_reset s e = s\<lparr> fs_env := Obj e \<rparr>"

text \<open>
  The last lines of \<open>_get_observation\<close>: the client's answer is unpacked into four
  names, which raises unless it holds four joint states, and their entries 2 (the
  reaction forces) are concatenated.
\<close>

definition concatenate_forces :: "joint_state list \<Rightarrow> py_error + real list" where
  "concatenate_forces js =
     (case js of
        [f1, f2, f3, f4] \<Rightarrow>
          Inr (jointReactionForces f1 @ jointReactionForces f2 @
               jointReactionForces f3 @ jointReactionForces f4)
      | _ \<Rightarrow> Inl ValueError)"

text \<open>
  \<open>_get_observation\<close>. Python evaluates the method it calls,
  \<open>self._env._pybullet_client.getJointStates\<close>, before the arguments, so an unbound
  environment is found first, and a missing robot before the client is asked.
\<close>

definition ForceSensor_get_observation :: "force_sensor \<Rightarrow> store \<Rightarrow> py_error + real list" where
  "ForceSensor_get_observation s h =
     (case fs_env s of
        Unset \<Rightarrow> Inl (AttributeError ''ForceSensor'' ''_env'')
      | PyNone \<Rightarrow> Inl (AttributeError ''NoneType'' ''_pybullet_client'')
      | Obj a \<Rightarrow>
          (case fs_robot s of
             Unset \<Rightarrow> Inl (AttributeError ''ForceSensor'' ''_robot'')
           | PyNone \<Rightarrow> Inl (AttributeError ''NoneType'' ''quadruped'')
           | Obj r \<Rightarrow>
               concatenate_forces
                 (getJointStates (client (h a)) (quadruped r) (feet_id s))))"

section \<open>The experiment driver\<close>

text \<open>
  The configuration is a tree of Python dictionaries. Dictionaries are objects: a value
  that is a dictionary is a reference into a store of dictionaries, so that two names
  can hold the same dictionary. A dictionary is an association list in insertion order.
\<close>

datatype pyval = VNone | VBool bool | VInt int | VFloat real | VStr string | VDict nat

type_synonym pydict = "(string \<times> pyval) list"
type_synonym dstore = "nat \<Rightarrow> pydict"

definition py_bind :: "py_error + 'a \<Rightarrow> ('a \<Rightarrow> py_error + 'b) \<Rightarrow> py_error + 'b" where
  "py_bind m f = (case m of Inl e \<Rightarrow> Inl e | Inr x \<Rightarrow> f x)"

text \<open>\<open>d[k]\<close>, \<open>d[k] = v\<close> and \<open>k in d\<close>.\<close>

definition getitem :: "dstore \<Rightarrow> pyval \<Rightarrow> string \<Rightarrow> py_error + pyval" where
  "getitem h d k =
     (case d of
        VDict a \<Rightarrow> (case map_of (h a) k of None \<Rightarrow> Inl (KeyError k) | Some v \<Rightarrow> Inr v)
      | _ \<Rightarrow> Inl TypeError)"

definition setitem :: "dstore \<Rightarrow> pyval \<Rightarrow> string \<Rightarrow> pyval \<Rightarrow> py_error + dstore" where
  "setitem h d k v =
     (case d of
        VDict a \<Rightarrow> Inr (h(a := AList.update k v (h a)))
      | _ \<Rightarrow> Inl TypeError)"

definition contains :: "dstore \<Rightarrow> string \<Rightarrow> pyval \<Rightarrow> py_error + bool" where
  "contains h k d =
     (case d of
        VDict a \<Rightarrow> Inr (map_of (h a) k \<noteq> None)
      | VStr s \<Rightarrow> Inr (sublist k s)
      | _ \<Rightarrow> Inl TypeError)"

text \<open>\<open>v > n\<close> and \<open>v == n\<close> for an integer \<open>n\<close>; \<open>True\<close> and \<open>False\<close> count as 1 and 0.\<close>

definition py_gt :: "pyval \<Rightarrow> int \<Rightarrow> py_error + bool" where
  "py_gt v n =
     (case v of
        VInt i \<Rightarrow> Inr (i > n)
      | VFloat x \<Rightarrow> Inr (x > of_int n)
      | VBool b \<Rightarrow> Inr ((if b then 1 else 0) > n)
      | _ \<Rightarrow> Inl TypeError)"

definition py_eq :: "pyval \<Rightarrow> int \<Rightarrow> bool" where
  "py_eq v n =
     (case v of
        VInt i \<Rightarrow> i = n
      | VFloat x \<Rightarrow> x = of_int n
      | VBool b \<Rightarrow> (if b then 1 else 0) = n
      | _ \<Rightarrow> False)"

text \<open>\<open>params.copy()\<close>: a new dictionary at the fresh address \<open>q\<close> with the entries of \<open>p\<close>.\<close>

definition dict_copy :: "dstore \<Rightarrow> nat \<Rightarrow> nat \<Rightarrow> dstore" where
  "dict_copy h p q = h(q := h p)"

text \<open>
  The expression \<open>eval_params["env"]["env_build"]\<close>, evaluated anew in every statement
  that contains it, and reading, writing and testing a key of it.
\<close>

definition env_build :: "dstore \<Rightarrow> nat \<Rightarrow> py_error + pyval" where
  "env_build h ep = py_bind (getitem h (VDict ep) ''env'') (\<lambda>e. getitem h e ''env_build'')"

definition get_env_build :: "dstore \<Rightarrow> nat \<Rightarrow> string \<Rightarrow> py_error + pyval" where
  "get_env_build h ep k = py_bind (env_build h ep) (\<lambda>eb. getitem h eb k)"

definition set_env_build :: "dstore \<Rightarrow> nat \<Rightarrow> string \<Rightarrow> pyval \<Rightarrow> py_error + dstore" where
  "set_env_build h ep k v = py_bind (env_build h ep) (\<lambda>eb. setitem h eb k v)"

definition in_env_build :: "dstore \<Rightarrow> nat \<Rightarrow> string \<Rightarrow> py_error + bool" where
  "in_env_build h ep k = py_bind (env_build h ep) (\<lambda>eb. contains h k eb)"

text \<open>The \<open>if\<close>/\<open>elif\<close> on \<open>get_image_interval\<close>; \<open>and\<close> stops at the first false operand.\<close>

definition image_interval_step :: "dstore \<Rightarrow> nat \<Rightarrow> py_error + dstore" where
  "image_interval_step h ep =
     py_bind (in_env_build h ep ''get_image_interval'') (\<lambda>present.
     py_bind (if present
              then py_bind (get_env_build h ep ''get_image_interval'') (\<lambda>v. py_gt v 1)
              else Inr False) (\<lambda>above.
     if above then
       py_bind (get_env_build h ep ''get_image_interval'') (\<lambda>v.
       py_bind (set_env_build h ep ''frame_extract'' v) (\<lambda>h.
       set_env_build h ep ''get_image_interval'' (VInt 1)))
     else
       py_bind (in_env_build h ep ''get_image_interval'') (\<lambda>present.
       py_bind (if present
                then py_bind (get_env_build h ep ''get_image_interval'') (\<lambda>v.
                     if py_eq v 1
                     then py_bind (get_env_build h ep ''frame_extract'') (\<lambda>f. Inr (py_eq f 1))
                     else Inr False)
                else Inr False) (\<lambda>one.
       if one then set_env_build h ep ''frame_extract'' (VInt 4) else Inr h))))"

text \<open>\<open>if k in eval_params["env"]["env_build"]: eval_params["env"]["env_build"][k] = False\<close>.\<close>

definition disable_if_present :: "dstore \<Rightarrow> nat \<Rightarrow> string \<Rightarrow> py_error + dstore" where
  "disable_if_present h ep k =
     py_bind (in_env_build h ep k) (\<lambda>present.
     if present then set_env_build h ep k (VBool False) else Inr h)"

text \<open>The statements of \<open>experiment\<close> that prepare the evaluation configuration.\<close>

definition eval_setup :: "dstore \<Rightarrow> nat \<Rightarrow> py_error + dstore" where
  "eval_setup h ep =
     py_bind (set_env_build h ep ''reset_frame_idx_each_step'' (VBool True)) (\<lambda>h.
     py_bind (getitem h (VDict ep) ''env'') (\<lambda>e.
     py_bind (setitem h e ''horizon'' (VInt 2000)) (\<lambda>h.
     py_bind (image_interval_step h ep) (\<lambda>h.
     py_bind (disable_if_present h ep ''curriculum'') (\<lambda>h.
     py_bind (disable_if_present h ep ''interpolation'') (\<lambda>h.
     disable_if_present h ep ''fixed_delay_observation''))))))"

text \<open>
  The command-line arguments the driver reads up to the construction of the two
  environments, and the arguments of a call of \<open>get_subprocvec_env\<close>. That function is
  not part of these sources: the model records what it is called with.
\<close>

record args =
  vec_env_nums :: int
  proc_nums :: int
  cuda :: bool
  device :: int

record env_call =
  call_env_name :: pyval
  call_env_params :: pyval
  call_vec_env_nums :: int
  call_proc_nums :: int

text \<open>
  \<open>experiment\<close>, up to the construction of the evaluation environment: the training
  environment is requested, the evaluation configuration is prepared, the evaluation
  environment is requested. \<open>p\<close> is the address of \<open>params\<close> and \<open>ep\<close> that of
  \<open>eval_params\<close>. It returns the store of dictionaries and the two requests.
\<close>

definition experiment_driver ::
  "dstore \<Rightarrow> nat \<Rightarrow> nat \<Rightarrow> args \<Rightarrow> py_error + (dstore \<times> env_call \<times> env_call)" where
  "experiment_driver h p ep a =
     py_bind (getitem h (VDict p) ''env_name'') (\<lambda>name.
     py_bind (getitem h (VDict p) ''env'') (\<lambda>cfg.
     let env = \<lparr> call_env_name = name, call_env_params = cfg,
                 call_vec_env_nums = vec_env_nums a, call_proc_nums = proc_nums a \<rparr>
     in py_bind (eval_setup h ep) (\<lambda>h.
        py_bind (getitem h (VDict ep) ''env_name'') (\<lambda>eval_name.
        py_bind (getitem h (VDict ep) ''env'') (\<lambda>eval_cfg.
        let eval_env = \<lparr> call_env_name = eval_name, call_env_params = eval_cfg,
                         call_vec_env_nums = max 2 (vec_env_nums a),
                         call_proc_nums = max 2 (proc_nums a) \<rparr>
        in Inr (h, env, eval_env))))))"

text \<open>
  The module's two globals and then the driver: \<open>params\<close> lives at \<open>p\<close> and
  \<open>eval_params = params.copy()\<close> is created at the fresh address \<open>q\<close>.
\<close>

definition run_module ::
  "dstore \<Rightarrow> nat \<Rightarrow> nat \<Rightarrow> args \<Rightarrow> py_error + (dstore \<times> env_call \<times> env_call)" where
  "run_module h p q a = experiment_driver (dict_copy h p q) p q a"

text \<open>
  A well-formed configuration: \<open>params\<close> at \<open>p\<close> and \<open>eval_params\<close> at \<open>q\<close> both
  hold the dictionary at \<open>e\<close> under \<open>env\<close>, which holds the dictionary at \<open>b\<close> under
  \<open>env_build\<close>, and the four dictionaries are different objects.
\<close>

definition config_tree :: "dstore \<Rightarrow> nat \<Rightarrow> nat \<Rightarrow> nat \<Rightarrow> nat \<Rightarrow> bool" where
  "config_tree h p q e b =
     (distinct [p, q, e, b] \<and>
      map_of (h p) ''env'' = Some (VDict e) \<and>
      map_of (h q) ''env'' = Some (VDict e) \<and>
      map_of (h e) ''env_build'' = Some (VDict b))"

section \<open>Test data\<close>

definition robot0 :: robot where
  "robot0 = \<lparr> quadruped = 1, foot_link_ids = [2, 5, 8, 11],
     GetBasePosition = (0, 0, 0.5), GetBaseOrientation = (0, 0, 0.6, 0.8),
     GetMotorTorques = [1, 2] \<rparr>"

definition joint0 :: joint_state where
  "joint0 = \<lparr> jointPosition = 0, jointVelocity = 0,
     jointReactionForces = [0, 0, 0, 0, 0, 0], appliedJointMotorTorque = 0 \<rparr>"

definition client0 :: pybullet_client where
  "client0 = \<lparr> getBasePositionAndOrientation = (\<lambda>_. ((0, 0, 0.5), (0, 0, 0.6, 0.8))),
     getMatrixFromQuaternion = (\<lambda>_. [0.28, - 0.96, 0, 0.96, 0.28, 0, 0, 0, 1]),
     getContactPoints = (\<lambda>_. []),
     getJointStates = (\<lambda>_ ids. map (\<lambda>_. joint0) ids) \<rparr>"

definition world0 :: world_dict where
  "world0 = \<lparr> goal_pos = Some (10, 0, 0.5), subgoals = Some [(1, 0, 0.5), (5, 0, 0.5)],
     subgoals_achieved = Some [False, False], ground = Some 0, terrain = None \<rparr>"

definition env0 :: env where
  "env0 = \<lparr> robot = robot0, client = client0, world = world0, last_action = [0, 0] \<rparr>"

definition store0 :: store where
  "store0 = (\<lambda>_. env0)"

text \<open>
  A task with target speed 1 and an elapsed time of 0.1 s, bound to the environment at
  address 0, whose base moved by \<open>d\<close> along \<open>x\<close> in the last step: its horizontal speed
  is \<open>10 * d\<close>.
\<close>

definition task_moved :: "real \<Rightarrow> goal_task" where
  "task_moved d =
     (GoalTask_init False 0 0 0 0.01 10 0.3 0.1 0 (Some 1) False (1, 0) 10 False)
       \<lparr> env_ref := Some 0, last_base_pos := Some (0, 0, 0.5),
         current_base_pos := Some (d, 0, 0.5) \<rparr>"

text \<open>An environment whose base stands 0.9 high, and a task with \<open>z_constrain\<close> reset in it.\<close>

definition env_high :: env where
  "env_high =
     env0\<lparr> robot := robot0\<lparr> GetBasePosition := (0, 0, 0.9) \<rparr>,
           client := client0\<lparr> getBasePositionAndOrientation :=
                       (\<lambda>_. ((0, 0, 0.9), (0, 0, 0.6, 0.8))) \<rparr> \<rparr>"

definition task_high :: goal_task where
  "task_high =
     GoalTask_reset
       (GoalTask_init True 0 0 0 0.01 10 0.3 0.1 0 (Some 1) False (1, 0) 10 False)
       (\<lambda>_. env_high) 0"

text \<open>
  An environment in which link 3 of the robot, not a foot, touches the ground, and a
  task with \<open>check_contact\<close> reset in it.
\<close>

definition env_contact :: env where
  "env_contact =
     env0\<lparr> client := client0\<lparr> getContactPoints :=
                       (\<lambda>_. [\<lparr> bodyUniqueIdB = 0, linkIndexA = 3 \<rparr>]) \<rparr> \<rparr>"

definition task_contact :: goal_task where
  "task_contact =
     GoalTask_reset
       (GoalTask_init False 0 0 0 0.01 10 0.3 0.1 0 (Some 1) True (1, 0) 10 False)
       (\<lambda>_. env_contact) 0"

text \<open>
  The task that moved 0.09 with the subgoal bonus enabled; the store after subgoal 0 was
  achieved; and the task that moved 0.1 at half the control frequency.
\<close>

definition task_sub :: goal_task where
  "task_sub = (task_moved 0.09)\<lparr> subgoal_enabled := True \<rparr>"

definition store1 :: store where
  "store1 = store0(0 := env0\<lparr> world := world0\<lparr> subgoals_achieved := Some [True, False] \<rparr> \<rparr>)"

definition task_slow :: goal_task where
  "task_slow = (task_moved 0.1)\<lparr> num_action_repeat := 20 \<rparr>"

text \<open>
  A configuration with \<open>params\<close> at address 0, and a command line that asks for one
  environment and no worker process.
\<close>

definition cfg0 :: dstore where
  "cfg0 = (\<lambda>_. [])
     (0 := [(''env_name'', VStr ''A1MoveGround''), (''env'', VDict 1)],
      1 := [(''horizon'', VInt 1000), (''env_build'', VDict 2)],
      2 := [(''get_image_interval'', VInt 4), (''curriculum'', VBool True),
            (''frame_extract'', VInt 1)])"

definition args0 :: args where
  "args0 = \<lparr> vec_env_nums = 1, proc_nums = 0, cuda = False, device = 0 \<rparr>"

section \<open>Helper lemmas\<close>

lemma norm2_axis: "norm2 (x, 0) = \<bar>x\<bar>"
  by (simp add: norm2_def)

lemma elapsed_task_moved: "elapsed (task_moved d) = 1 / 10"
  by (simp add: elapsed_def task_moved_def GoalTask_init_def)

lemma horizontal_speed_task_moved: "horizontal_speed (task_moved d) = \<bar>d\<bar> * 10"
  by (simp add: horizontal_speed_def elapsed_def task_moved_def GoalTask_init_def norm2_axis
      abs_mult)

lemma root_velocity_general:
  assumes "env_ref t = Some a" and "last_base_pos t = Some l"
    and "current_base_pos t = Some c" and "elapsed t \<noteq> 0"
    and "target_vel t = Some tv"
  shows "calc_reward_root_velocity t h =
           Inr (tv\<^sup>2 - (min (horizontal_speed t) tv - tv)\<^sup>2
                - z_penalty t * (vertical_speed t)\<^sup>2)"
  using assms
  by (cases l; cases c)
    (simp add: calc_reward_root_velocity_def horizontal_speed_def vertical_speed_def Let_def)

lemma root_velocity_formula:
  assumes "env_ref t = Some a" and "last_base_pos t = Some l"
    and "current_base_pos t = Some c" and "elapsed t \<noteq> 0"
    and "target_vel t = Some tv" and "z_penalty t = 0"
  shows "calc_reward_root_velocity t h =
           Inr (tv\<^sup>2 - (min (horizontal_speed t) tv - tv)\<^sup>2)"
  using root_velocity_general [OF assms(1-5), of h] assms(6) by simp

lemma root_velocity_task_moved:
  "calc_reward_root_velocity (task_moved d) h = Inr (1 - (min (\<bar>d\<bar> * 10) 1 - 1)\<^sup>2)"
proof -
  have "calc_reward_root_velocity (task_moved d) h =
          Inr (1\<^sup>2 - (min (horizontal_speed (task_moved d)) 1 - 1)\<^sup>2)"
    by (rule root_velocity_formula [where a = 0 and l = "(0, 0, 0.5)" and c = "(d, 0, 0.5)"])
      (simp_all add: elapsed_task_moved, simp_all add: task_moved_def GoalTask_init_def)
  then show ?thesis by (simp add: horizontal_speed_task_moved)
qed

lemma contact_loop1_eq:
  "ground w = Some g \<Longrightarrow>
   contact_loop1 w feet cs =
     Inr (\<exists>c \<in> set cs. (bodyUniqueIdB c = g \<or> Some (bodyUniqueIdB c) = terrain w) \<and>
                        linkIndexA c \<notin> set feet)"
  by (induction cs) auto

lemma contact_loop2_eq:
  "ground w = Some g \<Longrightarrow>
   contact_loop2 w d cs = Inr (d \<or> (\<exists>c \<in> set cs. bodyUniqueIdB c \<noteq> g))"
  by (induction cs) auto

lemma contact_loops_eq:
  assumes "cs = [] \<or> ground w \<noteq> None"
  shows "\<exists>d. contact_loop1 w feet cs = Inr d \<and>
           contact_loop2 w d cs =
             Inr (\<exists>c \<in> set cs. Some (bodyUniqueIdB c) \<noteq> ground w \<or> linkIndexA c \<notin> set feet)"
proof (cases "cs = []")
  case True
  then show ?thesis by auto
next
  case False
  with assms obtain g where g: "ground w = Some g" by auto
  show ?thesis
    by (simp add: contact_loop1_eq [OF g] contact_loop2_eq [OF g] g) blast
qed

lemma done_eq:
  assumes "env_ref t = Some a"
    and "getMatrixFromQuaternion (client (h a)) (GetBaseOrientation (robot (h a))) \<noteq> []"
    and "check_contact t \<Longrightarrow>
           (getContactPoints (client (h a)) (quadruped (robot (h a))) = [] \<or>
            ground (world (h a)) \<noteq> None)"
    and "check_contact t \<Longrightarrow> current_base_pos t = Some c \<and> last_base_pos t = Some l"
  shows "GoalTask_done t h arg =
     Inr (base_height (h a) < height_fall_coeff t \<or>
          (z_constrain t \<and> base_height (h a) > 0.8) \<or>
          up_component (h a) < 0.6 \<or>
          (check_contact t \<and> flagged_contact (h a) \<and> elapsed t \<noteq> 0 \<and> base_speed t \<le> 0.05))"
proof (cases "check_contact t")
  case False
  with assms(1,2) show ?thesis
    by (simp add: GoalTask_done_def Let_def base_height_def up_component_def
        split: prod.splits)
next
  case True
  from contact_loops_eq [OF assms(3) [OF True], of "foot_link_ids (robot (h a))"]
  obtain d where d1: "contact_loop1 (world (h a)) (foot_link_ids (robot (h a)))
        (getContactPoints (client (h a)) (quadruped (robot (h a)))) = Inr d"
    and d2: "contact_loop2 (world (h a)) d
        (getContactPoints (client (h a)) (quadruped (robot (h a)))) =
        Inr (flagged_contact (h a))"
    unfolding flagged_contact_def by blast
  from assms(4) [OF True] have c: "current_base_pos t = Some c"
    and l: "last_base_pos t = Some l" by simp_all
  show ?thesis
    using assms(1,2) True
    by (simp add: GoalTask_done_def Let_def base_height_def up_component_def
        base_speed_def d1 d2 c l split: prod.splits)
qed


lemma subgoal_loop_keeps_flag:
  "flag_set w i \<Longrightarrow> flag_set (fst (subgoal_loop cur j ps w r)) i"
proof (induction ps arbitrary: j w r)
  case Nil
  then show ?case by simp
next
  case (Cons pos ps)
  show ?case
  proof (cases cur)
    case None
    with Cons.prems show ?thesis by simp
  next
    case (Some c)
    from Cons.prems obtain fl where fl: "subgoals_achieved w = Some fl"
      and i: "i < length fl" "fl ! i"
      by (auto simp: flag_set_def split: option.splits)
    have upd: "flag_set (w\<lparr> subgoals_achieved := Some (fl[j := True]) \<rparr>) i"
      using i by (cases "i = j") (simp_all add: flag_set_def)
    show ?thesis
      using Some fl Cons.prems Cons.IH [OF upd] Cons.IH [OF Cons.prems]
      by simp
  qed
qed

lemma subgoal_loop_reward:
  "subgoal_loop (Some c) j ps w r = (w', Inr r') \<Longrightarrow>
   subgoals_achieved w = Some fl \<Longrightarrow>
   r' = r + 5 * int (length (filter (\<lambda>(k, pos). norm3 (sub3 c pos) < 1 \<and> \<not> fl ! k)
                               (enumerate j ps)))"
proof (induction ps arbitrary: j w r fl)
  case Nil
  then show ?case by simp
next
  case (Cons pos ps)
  have later: "\<And>k p. (k, p) \<in> set (enumerate (Suc j) ps) \<Longrightarrow> fl[j := True] ! k = fl ! k"
    by (auto simp: in_set_enumerate_eq)
  have same: "filter (\<lambda>(k, pos). norm3 (sub3 c pos) < 1 \<and> \<not> fl[j := True] ! k)
                (enumerate (Suc j) ps) =
              filter (\<lambda>(k, pos). norm3 (sub3 c pos) < 1 \<and> \<not> fl ! k) (enumerate (Suc j) ps)"
    by (rule filter_cong) (auto simp: later)
  show ?case
  proof (cases "norm3 (sub3 c pos) < 1")
    case False
    with Cons.prems Cons.IH [of "Suc j" w r fl] show ?thesis by simp
  next
    case True
    show ?thesis
    proof (cases "j < length fl")
      case False
      with True Cons.prems show ?thesis by simp
    next
      case jl: True
      show ?thesis
      proof (cases "fl ! j")
        case True
        with \<open>norm3 (sub3 c pos) < 1\<close> jl Cons.prems Cons.IH [of "Suc j" w r fl]
        show ?thesis by simp
      next
        case False
        with \<open>norm3 (sub3 c pos) < 1\<close> jl Cons.prems
          Cons.IH [of "Suc j" "w\<lparr> subgoals_achieved := Some (fl[j := True]) \<rparr>" "r + 5"
            "fl[j := True]"]
        show ?thesis by (simp add: same)
      qed
    qed
  qed
qed


lemma calc_reward_subgoal_keeps:
  assumes "achieved h a i"
  shows "achieved (fst (calc_reward_subgoal t h)) a i"
proof (cases "env_ref t")
  case None
  with assms show ?thesis by (simp add: calc_reward_subgoal_def)
next
  case (Some b)
  show ?thesis
  proof (cases "subgoals (world (h b))")
    case None
    with Some assms show ?thesis by (simp add: calc_reward_subgoal_def)
  next
    case sp: (Some subgoal_pos)
    obtain w res where lp:
      "subgoal_loop (current_base_pos t) 0 subgoal_pos (world (h b)) 0 = (w, res)"
      by (cases "subgoal_loop (current_base_pos t) 0 subgoal_pos (world (h b)) 0")
    have st: "fst (calc_reward_subgoal t h) = h(b := (h b)\<lparr> world := w \<rparr>)"
      using Some sp lp by (simp add: calc_reward_subgoal_def)
    show ?thesis
    proof (cases "b = a")
      case True
      from assms True have "flag_set (world (h b)) i" by (simp add: achieved_def)
      from subgoal_loop_keeps_flag [OF this, of "current_base_pos t" 0 subgoal_pos 0] lp
      have "flag_set w i" by simp
      with st True show ?thesis by (simp add: achieved_def)
    next
      case False
      with st assms show ?thesis by (simp add: achieved_def)
    qed
  qed
qed

lemma reward_store:
  "fst (GoalTask_reward t h e) = h \<or>
   fst (GoalTask_reward t h e) = fst (calc_reward_subgoal t h)"
  by (simp add: GoalTask_reward_def Let_def split: option.splits sum.splits prod.splits)

lemma reward_keeps:
  "achieved h a i \<Longrightarrow> achieved (fst (GoalTask_reward t h e)) a i"
  using reward_store [of t h e] calc_reward_subgoal_keeps [of h a i t] by auto

lemma call_step_keeps:
  "achieved h a i \<Longrightarrow> achieved (snd (call_step c (t, h))) a i"
  by (cases c) (simp_all add: reward_keeps calc_reward_subgoal_keeps split: sum.splits)

lemma event_step_keeps:
  assumes "achieved (snd s) a i"
  shows "achieved (snd (event_step s ev)) a i"
proof (cases s)
  case (Pair t h)
  with assms have ach: "achieved h a i" by simp
  show ?thesis
  proof (cases ev)
    case (Call c)
    with Pair call_step_keeps [OF ach, of c t] show ?thesis by simp
  next
    case (Sim b r cl)
    with Pair ach show ?thesis by (auto simp: achieved_def)
  qed
qed

lemma run_events_keeps:
  "achieved (snd s) a i \<Longrightarrow> achieved (snd (run_events es s)) a i"
  unfolding run_events_def
  by (induction es arbitrary: s) (simp_all add: event_step_keeps)

lemma calc_reward_subgoal_value:
  assumes "env_ref t = Some a" and "subgoals (world (h a)) = Some sp"
    and "subgoals_achieved (world (h a)) = Some fl" and "current_base_pos t = Some c"
    and "calc_reward_subgoal t h = (h', Inr r)"
  shows "r = 5 * int (length (filter (\<lambda>(k, pos). norm3 (sub3 c pos) < 1 \<and> \<not> fl ! k)
                               (enumerate 0 sp)))"
proof -
  obtain w res where lp: "subgoal_loop (Some c) 0 sp (world (h a)) 0 = (w, res)"
    by (cases "subgoal_loop (Some c) 0 sp (world (h a)) 0")
  with assms have "res = Inr r" by (simp add: calc_reward_subgoal_def)
  with lp subgoal_loop_reward [of c 0 sp "world (h a)" 0 w r fl] assms(3)
  show ?thesis by simp
qed

lemma norm3_axis: "norm3 (x, 0, 0) = \<bar>x\<bar>"
  by (simp add: norm3_def)

lemma dot_self: "dot xs xs = (\<Sum>x\<leftarrow>xs. x\<^sup>2)"
  by (induction xs) (simp_all add: dot_def power2_eq_square)

lemma goal_dist_formula:
  assumes "env_ref t = Some a" and "last_base_pos t = Some l"
    and "current_base_pos t = Some c" and "elapsed t \<noteq> 0"
    and "goal_pos (world (h a)) = Some g"
  shows "calc_reward_goal_dist t h =
           Inr ((norm3 (sub3 g l) - norm3 (sub3 g c)) / elapsed t)"
  using assms by (simp add: calc_reward_goal_dist_def Let_def)

lemma rotation_formula:
  assumes "env_ref t = Some a"
  shows "calc_reward_rotation t h =
           Inr (case init_orientation t of
                  None \<Rightarrow> 0
                | Some q \<Rightarrow> quat_sq_dist q (GetBaseOrientation (robot (h a))))"
  using assms by (simp add: calc_reward_rotation_def Let_def split: option.splits)

lemma subgoal_first_call:
  "calc_reward_subgoal (task_moved 0.09) store0 = (store1, Inr 5)"
  by (simp add: calc_reward_subgoal_def task_moved_def GoalTask_init_def store0_def store1_def
      env0_def world0_def sub3_def norm3_def)


lemma task_sub_fields:
  "env_ref task_sub = Some 0" "last_base_pos task_sub = Some (0, 0, 0.5)"
  "current_base_pos task_sub = Some (0.09, 0, 0.5)" "target_vel task_sub = Some 1"
  "subgoal_enabled task_sub" "elapsed task_sub = 0.1" "goal_coeff task_sub = 10"
  "move_forward_coeff task_sub = 1" "energy_weight task_sub = - 0.005"
  "time_step task_sub = 0.01" "orientation_penalty task_sub = 0" "z_penalty task_sub = 0"
  "alive_reward task_sub = 0.1" "fall_reward task_sub = 0"
  "init_orientation task_sub = Some (0, 0, 0, 1)"
  by (simp_all add: task_sub_def task_moved_def GoalTask_init_def elapsed_def)

lemma force_resets:
  "foldl ForceSensor_on_reset s (e # es) = s\<lparr> fs_env := Obj (last (e # es)) \<rparr>"
proof (induction es arbitrary: e s)
  case Nil
  show ?case by (simp add: ForceSensor_on_reset_def)
next
  case (Cons e' es)
  from Cons.IH [of "ForceSensor_on_reset s e" e'] show ?case
    by (simp add: ForceSensor_on_reset_def)
qed

lemma config_tree_copy:
  assumes "distinct [p, q, e, b]" and "map_of (h p) ''env'' = Some (VDict e)"
    and "map_of (h e) ''env_build'' = Some (VDict b)"
  shows "config_tree (dict_copy h p q) p q e b"
  using assms by (auto simp: config_tree_def dict_copy_def)

lemma config_tree_upd_b: "config_tree h p q e b \<Longrightarrow> config_tree (h(b := x)) p q e b"
  by (auto simp: config_tree_def)

lemma env_build_tree: "config_tree h p q e b \<Longrightarrow> env_build h q = Inr (VDict b)"
  by (simp add: config_tree_def env_build_def py_bind_def getitem_def)

lemma env_build_tree_p: "config_tree h p q e b \<Longrightarrow> env_build h p = Inr (VDict b)"
  by (simp add: config_tree_def env_build_def py_bind_def getitem_def)

lemma set_env_build_tree:
  "config_tree h p q e b \<Longrightarrow>
   set_env_build h q k v = Inr (h(b := AList.update k v (h b)))"
  by (simp add: set_env_build_def env_build_tree py_bind_def setitem_def)

lemma get_env_build_tree:
  "config_tree h p q e b \<Longrightarrow> get_env_build h q k = getitem h (VDict b) k"
  by (simp add: get_env_build_def env_build_tree py_bind_def)

lemma get_env_build_tree_p:
  "config_tree h p q e b \<Longrightarrow> get_env_build h p k = getitem h (VDict b) k"
  by (simp add: get_env_build_def env_build_tree_p py_bind_def)

lemma in_env_build_tree:
  "config_tree h p q e b \<Longrightarrow> in_env_build h q k = Inr (map_of (h b) k \<noteq> None)"
  by (simp add: in_env_build_def env_build_tree py_bind_def contains_def)

lemma image_interval_step_tree:
  assumes "config_tree h p q e b" and "image_interval_step h q = Inr h'"
  shows "\<exists>x. h' = h(b := x) \<and>
             (\<forall>k. k \<noteq> ''frame_extract'' \<and> k \<noteq> ''get_image_interval'' \<longrightarrow>
                  map_of x k = map_of (h b) k)"
proof -
  have t1: "\<And>v. config_tree (h(b := AList.update ''frame_extract'' v (h b))) p q e b"
    using assms(1) by (rule config_tree_upd_b)
  have same: "h = h(b := h b)" by simp
  show ?thesis
    using assms(2)
    apply (simp add: image_interval_step_def in_env_build_tree [OF assms(1)]
        get_env_build_tree [OF assms(1)] set_env_build_tree [OF assms(1)]
        set_env_build_tree [OF t1] py_bind_def
        split: if_splits sum.splits)
    apply (auto simp: update_conv' intro: exI [of _ "h b"] same)
    done
qed

lemma disable_if_present_tree:
  "config_tree h p q e b \<Longrightarrow>
   disable_if_present h q k =
     Inr (if map_of (h b) k \<noteq> None then h(b := AList.update k (VBool False) (h b)) else h)"
  by (simp add: disable_if_present_def in_env_build_tree set_env_build_tree py_bind_def)


lemma disable_if_present_effect:
  assumes "config_tree h p q e b" and "disable_if_present h q k = Inr h'"
  shows "config_tree h' p q e b \<and> h' p = h p \<and> h' q = h q \<and> h' e = h e \<and>
         (\<forall>k'. k' \<noteq> k \<longrightarrow> map_of (h' b) k' = map_of (h b) k') \<and>
         (map_of (h b) k \<noteq> None \<longrightarrow> map_of (h' b) k = Some (VBool False))"
proof -
  from assms(1) have d: "p \<noteq> b" "q \<noteq> b" "e \<noteq> b" by (auto simp: config_tree_def)
  from assms have h': "h' = (if map_of (h b) k \<noteq> None
                           then h(b := AList.update k (VBool False) (h b)) else h)"
    by (simp add: disable_if_present_tree)
  show ?thesis
  proof (cases "map_of (h b) k \<noteq> None")
    case True
    with h' have "h' = h(b := AList.update k (VBool False) (h b))" by simp
    with d config_tree_upd_b [OF assms(1)] show ?thesis by (simp add: update_conv')
  next
    case False
    with h' have "h' = h" by simp
    with assms(1) False show ?thesis by simp
  qed
qed

lemma eval_setup_tree:
  assumes tree: "config_tree h p q e b" and run: "eval_setup h q = Inr h'"
  shows "h' p = h p \<and> h' q = h q \<and>
         h' e = AList.update ''horizon'' (VInt 2000) (h e) \<and>
         map_of (h' b) ''reset_frame_idx_each_step'' = Some (VBool True) \<and>
         (\<forall>k \<in> {''curriculum'', ''interpolation'', ''fixed_delay_observation''}.
            map_of (h b) k \<noteq> None \<longrightarrow> map_of (h' b) k = Some (VBool False))"
proof -
  from tree have d: "p \<noteq> b" "q \<noteq> b" "e \<noteq> b" "p \<noteq> e" "q \<noteq> e"
    by (auto simp: config_tree_def)
  define h1 where "h1 = h(b := AList.update ''reset_frame_idx_each_step'' (VBool True) (h b))"
  define h2 where "h2 = h1(e := AList.update ''horizon'' (VInt 2000) (h1 e))"
  have t1: "config_tree h1 p q e b"
    unfolding h1_def using tree by (rule config_tree_upd_b)
  have t2: "config_tree h2 p q e b"
    using t1 by (auto simp: config_tree_def h2_def update_conv')
  have s1: "set_env_build h q ''reset_frame_idx_each_step'' (VBool True) = Inr h1"
    by (simp add: set_env_build_tree [OF tree] h1_def)
  have g1: "getitem h1 (VDict q) ''env'' = Inr (VDict e)"
    using t1 by (simp add: getitem_def config_tree_def)
  have s2: "setitem h1 (VDict e) ''horizon'' (VInt 2000) = Inr h2"
    by (simp add: setitem_def h2_def)
  from run obtain h3 h4 h5 where
    i3: "image_interval_step h2 q = Inr h3"
    and i4: "disable_if_present h3 q ''curriculum'' = Inr h4"
    and i5: "disable_if_present h4 q ''interpolation'' = Inr h5"
    and i6: "disable_if_present h5 q ''fixed_delay_observation'' = Inr h'"
    by (auto simp: eval_setup_def s1 g1 s2 py_bind_def split: sum.splits)
  from image_interval_step_tree [OF t2 i3] obtain x where
    h3: "h3 = h2(b := x)"
    and x: "\<And>k. k \<noteq> ''frame_extract'' \<Longrightarrow> k \<noteq> ''get_image_interval'' \<Longrightarrow>
               map_of x k = map_of (h2 b) k"
    by blast
  have t3: "config_tree h3 p q e b"
    unfolding h3 using t2 by (rule config_tree_upd_b)
  note e4 = disable_if_present_effect [OF t3 i4]
  then have t4: "config_tree h4 p q e b" by simp
  note e5 = disable_if_present_effect [OF t4 i5]
  then have t5: "config_tree h5 p q e b" by simp
  note e6 = disable_if_present_effect [OF t5 i6]
  have m2: "map_of (h2 b) = (map_of (h b))(''reset_frame_idx_each_step'' \<mapsto> VBool True)"
    using d by (simp add: h2_def h1_def update_conv')
  have m3: "\<And>k. k \<noteq> ''frame_extract'' \<Longrightarrow> k \<noteq> ''get_image_interval'' \<Longrightarrow>
               map_of (h3 b) k = map_of (h2 b) k"
    by (simp add: h3 x)
  have o3: "h3 p = h p" "h3 q = h q" "h3 e = AList.update ''horizon'' (VInt 2000) (h e)"
    using d by (simp_all add: h3 h2_def h1_def)
  have others: "h' p = h p" "h' q = h q"
    "h' e = AList.update ''horizon'' (VInt 2000) (h e)"
    using e4 e5 e6 o3 by simp_all
  have rf: "map_of (h' b) ''reset_frame_idx_each_step'' = Some (VBool True)"
  proof -
    have "map_of (h3 b) ''reset_frame_idx_each_step'' = Some (VBool True)"
      by (simp add: m3 m2)
    with e4 have "map_of (h4 b) ''reset_frame_idx_each_step'' = Some (VBool True)" by simp
    with e5 have "map_of (h5 b) ''reset_frame_idx_each_step'' = Some (VBool True)" by simp
    with e6 show ?thesis by simp
  qed
  have cu: "map_of (h' b) ''curriculum'' = Some (VBool False)"
    if "map_of (h b) ''curriculum'' \<noteq> None"
  proof -
    from that have "map_of (h3 b) ''curriculum'' \<noteq> None" by (simp add: m3 m2)
    with e4 have "map_of (h4 b) ''curriculum'' = Some (VBool False)" by simp
    with e5 have "map_of (h5 b) ''curriculum'' = Some (VBool False)" by simp
    with e6 show ?thesis by simp
  qed
  have ip: "map_of (h' b) ''interpolation'' = Some (VBool False)"
    if "map_of (h b) ''interpolation'' \<noteq> None"
  proof -
    from that have "map_of (h3 b) ''interpolation'' \<noteq> None" by (simp add: m3 m2)
    with e4 have "map_of (h4 b) ''interpolation'' \<noteq> None" by simp
    with e5 have "map_of (h5 b) ''interpolation'' = Some (VBool False)" by simp
    with e6 show ?thesis by simp
  qed
  have fd: "map_of (h' b) ''fixed_delay_observation'' = Some (VBool False)"
    if "map_of (h b) ''fixed_delay_observation'' \<noteq> None"
  proof -
    from that have "map_of (h3 b) ''fixed_delay_observation'' \<noteq> None" by (simp add: m3 m2)
    with e4 have "map_of (h4 b) ''fixed_delay_observation'' \<noteq> None" by simp
    with e5 have "map_of (h5 b) ''fixed_delay_observation'' \<noteq> None" by simp
    with e6 show ?thesis by simp
  qed
  from others rf cu ip fd show ?thesis by simp
qed

lemma driver_parts:
  "experiment_driver h p q a = Inr (h', train, eval) \<Longrightarrow>
   \<exists>name cfg eval_name eval_cfg.
     getitem h (VDict p) ''env_name'' = Inr name \<and>
     getitem h (VDict p) ''env'' = Inr cfg \<and>
     eval_setup h q = Inr h' \<and>
     getitem h' (VDict q) ''env_name'' = Inr eval_name \<and>
     getitem h' (VDict q) ''env'' = Inr eval_cfg \<and>
     train = \<lparr> call_env_name = name, call_env_params = cfg,
               call_vec_env_nums = vec_env_nums a, call_proc_nums = proc_nums a \<rparr> \<and>
     eval = \<lparr> call_env_name = eval_name, call_env_params = eval_cfg,
              call_vec_env_nums = max 2 (vec_env_nums a),
              call_proc_nums = max 2 (proc_nums a) \<rparr>"
  by (auto simp: experiment_driver_def py_bind_def Let_def split: sum.splits)

lemma driver_from_parts:
  "getitem h (VDict p) ''env_name'' = Inr name \<Longrightarrow>
   getitem h (VDict p) ''env'' = Inr cfg \<Longrightarrow>
   eval_setup h q = Inr h' \<Longrightarrow>
   getitem h' (VDict q) ''env_name'' = Inr eval_name \<Longrightarrow>
   getitem h' (VDict q) ''env'' = Inr eval_cfg \<Longrightarrow>
   experiment_driver h p q a =
     Inr (h',
          \<lparr> call_env_name = name, call_env_params = cfg,
            call_vec_env_nums = vec_env_nums a, call_proc_nums = proc_nums a \<rparr>,
          \<lparr> call_env_name = eval_name, call_env_params = eval_cfg,
            call_vec_env_nums = max 2 (vec_env_nums a),
            call_proc_nums = max 2 (proc_nums a) \<rparr>)"
  by (simp add: experiment_driver_def py_bind_def Let_def)

lemma run_cfg0:
  "\<exists>h'. run_module cfg0 0 3 args0 =
     Inr (h',
          \<lparr> call_env_name = VStr ''A1MoveGround'', call_env_params = VDict 1,
            call_vec_env_nums = 1, call_proc_nums = 0 \<rparr>,
          \<lparr> call_env_name = VStr ''A1MoveGround'', call_env_params = VDict 1,
            call_vec_env_nums = 2, call_proc_nums = 2 \<rparr>)"
  by (simp add: run_module_def experiment_driver_def eval_setup_def image_interval_step_def
      disable_if_present_def in_env_build_def set_env_build_def get_env_build_def
      env_build_def py_bind_def getitem_def setitem_def contains_def py_gt_def py_eq_def
      dict_copy_def cfg0_def args0_def Let_def)

lemma subgoal_loop_frame:
  "subgoals (fst (subgoal_loop cur j ps w r)) = subgoals w"
proof (induction ps arbitrary: j w r cur)
  case Nil
  show ?case by simp
next
  case (Cons pos ps)
  show ?case
    by (simp add: Cons.IH split: option.splits)
qed

lemma subgoal_loop_step:
  assumes "subgoal_loop (Some c) j (pos # ps) w r = (w', Inr r')"
  shows "\<exists>w1 r1. subgoal_loop (Some c) (Suc j) ps w1 r1 = (w', Inr r') \<and>
                 (norm3 (sub3 c pos) < 1 \<longrightarrow> flag_set w1 j)"
proof (cases "norm3 (sub3 c pos) < 1")
  case False
  with assms show ?thesis by auto
next
  case True
  with assms obtain fl where fl: "subgoals_achieved w = Some fl" and j: "j < length fl"
    by (auto split: option.splits if_splits)
  show ?thesis
  proof (cases "fl ! j")
    case True
    with \<open>norm3 (sub3 c pos) < 1\<close> fl j assms
    have "subgoal_loop (Some c) (Suc j) ps w r = (w', Inr r')" by simp
    moreover from True fl j have "flag_set w j" by (simp add: flag_set_def)
    ultimately show ?thesis by blast
  next
    case False
    let ?w1 = "w\<lparr> subgoals_achieved := Some (fl[j := True]) \<rparr>"
    from False \<open>norm3 (sub3 c pos) < 1\<close> fl j assms
    have "subgoal_loop (Some c) (Suc j) ps ?w1 (r + 5) = (w', Inr r')" by simp
    moreover from j have "flag_set ?w1 j" by (simp add: flag_set_def)
    ultimately show ?thesis by blast
  qed
qed

lemma subgoal_loop_sets:
  "subgoal_loop (Some c) j ps w r = (w', Inr r') \<Longrightarrow> k < length ps \<Longrightarrow>
   norm3 (sub3 c (ps ! k)) < 1 \<Longrightarrow> flag_set w' (j + k)"
proof (induction ps arbitrary: j w r k)
  case Nil
  then show ?case by simp
next
  case (Cons pos ps)
  from subgoal_loop_step [OF Cons.prems(1)] obtain w1 r1 where
    rest: "subgoal_loop (Some c) (Suc j) ps w1 r1 = (w', Inr r')"
    and hd: "norm3 (sub3 c pos) < 1 \<longrightarrow> flag_set w1 j"
    by blast
  show ?case
  proof (cases k)
    case 0
    with Cons.prems(3) hd have "flag_set w1 j" by simp
    from subgoal_loop_keeps_flag [OF this, of "Some c" "Suc j" ps r1] rest 0
    show ?thesis by simp
  next
    case (Suc k')
    with Cons.prems have "k' < length ps" "norm3 (sub3 c (ps ! k')) < 1" by simp_all
    from Cons.IH [OF rest this] Suc show ?thesis by simp
  qed
qed

lemma subgoal_loop_idle:
  "(\<And>k. k < length ps \<Longrightarrow> norm3 (sub3 c (ps ! k)) < 1 \<Longrightarrow> flag_set w (j + k)) \<Longrightarrow>
   subgoal_loop (Some c) j ps w r = (w, Inr r)"
proof (induction ps arbitrary: j)
  case Nil
  show ?case by simp
next
  case (Cons pos ps)
  have rest: "subgoal_loop (Some c) (Suc j) ps w r = (w, Inr r)"
  proof (rule Cons.IH)
    fix k assume "k < length ps" "norm3 (sub3 c (ps ! k)) < 1"
    with Cons.prems [of "Suc k"] show "flag_set w (Suc j + k)" by simp
  qed
  show ?case
  proof (cases "norm3 (sub3 c pos) < 1")
    case False
    with rest show ?thesis by simp
  next
    case True
    with Cons.prems [of 0] have "flag_set w j" by simp
    then obtain fl where "subgoals_achieved w = Some fl" "j < length fl" "fl ! j"
      by (auto simp: flag_set_def split: option.splits)
    with True rest show ?thesis by simp
  qed
qed

lemma calc_reward_subgoal_sets:
  assumes "env_ref t = Some a" and "subgoals (world (h a)) = Some sp"
    and "current_base_pos t = Some c" and "calc_reward_subgoal t h = (h1, Inr r)"
    and "k < length sp" and "norm3 (sub3 c (sp ! k)) < 1"
  shows "achieved h1 a k"
proof -
  obtain w res where lp: "subgoal_loop (Some c) 0 sp (world (h a)) 0 = (w, res)"
    by (cases "subgoal_loop (Some c) 0 sp (world (h a)) 0")
  with assms(1-4) have res: "res = Inr r" and h1: "h1 = h(a := (h a)\<lparr> world := w \<rparr>)"
    by (simp_all add: calc_reward_subgoal_def)
  from subgoal_loop_sets [of c 0 sp "world (h a)" 0 w r k] lp res assms(5,6)
  have "flag_set w k" by simp
  with h1 show ?thesis by (simp add: achieved_def)
qed

lemma calc_reward_subgoal_frame:
  assumes "env_ref t = Some a" and "subgoals (world (h a)) = Some sp"
    and "calc_reward_subgoal t h = (h1, res)"
  shows "subgoals (world (h1 a)) = Some sp"
proof -
  obtain w res' where lp:
    "subgoal_loop (current_base_pos t) 0 sp (world (h a)) 0 = (w, res')"
    by (cases "subgoal_loop (current_base_pos t) 0 sp (world (h a)) 0")
  with assms have h1: "h1 = h(a := (h a)\<lparr> world := w \<rparr>)"
    by (simp add: calc_reward_subgoal_def)
  from subgoal_loop_frame [of "current_base_pos t" 0 sp "world (h a)" 0] lp assms(2)
  have "subgoals w = Some sp" by simp
  with h1 show ?thesis by simp
qed

lemma calc_reward_subgoal_idle:
  assumes "env_ref t = Some a" and "subgoals (world (h a)) = Some sp"
    and "current_base_pos t = Some c"
    and "\<And>k. k < length sp \<Longrightarrow> norm3 (sub3 c (sp ! k)) < 1 \<Longrightarrow> achieved h a k"
  shows "calc_reward_subgoal t h = (h, Inr 0)"
proof -
  have "subgoal_loop (Some c) 0 sp (world (h a)) 0 = (world (h a), Inr 0)"
    by (rule subgoal_loop_idle) (use assms(4) in \<open>simp add: achieved_def\<close>)
  with assms(1-3) show ?thesis by (simp add: calc_reward_subgoal_def)
qed

lemma achieved_stays:
  assumes "achieved h a i"
  shows "achieved (snd (run_events es (t, h))) a i \<and>
         (\<forall>t1 h1 h2 sp fl c r.
            run_events es (t, h) = (t1, h1) \<and> env_ref t1 = Some a \<and>
            subgoals (world (h1 a)) = Some sp \<and>
            subgoals_achieved (world (h1 a)) = Some fl \<and>
            current_base_pos t1 = Some c \<and>
            calc_reward_subgoal t1 h1 = (h2, Inr r) \<longrightarrow>
            r = 5 * int (length (filter
                   (\<lambda>(k, pos). k \<noteq> i \<and> norm3 (sub3 c pos) < 1 \<and> \<not> fl ! k)
                   (enumerate 0 sp))) \<and>
            achieved h2 a i)"
proof (intro conjI allI impI)
  show keep: "achieved (snd (run_events es (t, h))) a i"
    using assms run_events_keeps [of "(t, h)" a i es] by simp
  fix t1 h1 h2 sp fl c r
  assume a: "run_events es (t, h) = (t1, h1) \<and> env_ref t1 = Some a \<and>
            subgoals (world (h1 a)) = Some sp \<and>
            subgoals_achieved (world (h1 a)) = Some fl \<and>
            current_base_pos t1 = Some c \<and>
            calc_reward_subgoal t1 h1 = (h2, Inr r)"
  with keep have ach: "achieved h1 a i" by simp
  with a have fli: "fl ! i" by (simp add: achieved_def flag_set_def)
  have "filter (\<lambda>(k, pos). k \<noteq> i \<and> norm3 (sub3 c pos) < 1 \<and> \<not> fl ! k) (enumerate 0 sp) =
        filter (\<lambda>(k, pos). norm3 (sub3 c pos) < 1 \<and> \<not> fl ! k) (enumerate 0 sp)"
    by (rule filter_cong) (use fli in auto)
  with a calc_reward_subgoal_value [of t1 a h1 sp fl c h2 r]
  show "r = 5 * int (length (filter
                   (\<lambda>(k, pos). k \<noteq> i \<and> norm3 (sub3 c pos) < 1 \<and> \<not> fl ! k)
                   (enumerate 0 sp)))" by simp
  from calc_reward_subgoal_keeps [OF ach, of t1] a show "achieved h2 a i" by simp
qed

section \<open>Claims\<close>

text \<open>
  C1 (as stated, refuted). The claim says the forward-velocity reward at speed
  \<open>target_vel\<close> is strictly greater than the reward at \<open>target_vel + \<delta>\<close>. With target
  speed 1 and elapsed time 0.1 s, a base that moved 0.1 has speed 1 and one that moved
  0.11 has speed 1.1; the clip makes both rewards equal to 1.
\<close>

theorem C1_overshoot_counterexample:
  "horizontal_speed (task_moved 0.1) = 1 \<and>
   horizontal_speed (task_moved 0.11) = 1 + 0.1 \<and>
   calc_reward_root_velocity (task_moved 0.1) store0 = Inr 1 \<and>
   calc_reward_root_velocity (task_moved 0.11) store0 = Inr 1"
  by (simp add: horizontal_speed_task_moved root_velocity_task_moved)

text \<open>
  C1 (amended). For a bound task with a positive \<open>target_vel\<close>, \<open>z_penalty = 0\<close> and a
  non-zero elapsed time, the forward-velocity reward is
  \<open>target_vel\<^sup>2 - (min speed target_vel - target_vel)\<^sup>2\<close>, where \<open>speed\<close> is the horizontal
  speed derived from the position delta. It never exceeds \<open>target_vel\<^sup>2\<close>; it is strictly
  below \<open>target_vel\<^sup>2\<close> at every speed below \<open>target_vel\<close> (so the reward at
  \<open>target_vel\<close> is strictly greater than the reward at \<open>target_vel - \<delta>\<close>); and it
  equals \<open>target_vel\<^sup>2\<close> at every speed at or above \<open>target_vel\<close> (so the reward at
  \<open>target_vel + \<delta>\<close> equals the reward at \<open>target_vel\<close>).
\<close>

theorem C1_forward_reward_clipped_quadratic:
  assumes "env_ref t = Some a" and "last_base_pos t = Some l"
    and "current_base_pos t = Some c" and "elapsed t \<noteq> 0"
    and "target_vel t = Some tv" and "0 < tv" and "z_penalty t = 0"
  shows "\<exists>r. calc_reward_root_velocity t h = Inr r \<and>
           r = tv\<^sup>2 - (min (horizontal_speed t) tv - tv)\<^sup>2 \<and>
           r \<le> tv\<^sup>2 \<and>
           (horizontal_speed t < tv \<longrightarrow> r < tv\<^sup>2) \<and>
           (tv \<le> horizontal_speed t \<longrightarrow> r = tv\<^sup>2)"
proof -
  let ?s = "horizontal_speed t"
  let ?r = "tv\<^sup>2 - (min ?s tv - tv)\<^sup>2"
  have val: "calc_reward_root_velocity t h = Inr ?r"
    using assms by (simp add: root_velocity_formula)
  have le: "?r \<le> tv\<^sup>2" by simp
  have below: "?s < tv \<Longrightarrow> ?r < tv\<^sup>2"
  proof -
    assume "?s < tv"
    then have "min ?s tv - tv \<noteq> 0" by simp
    then have "0 < (min ?s tv - tv)\<^sup>2" by simp
    then show "?r < tv\<^sup>2" by simp
  qed
  have above: "tv \<le> ?s \<Longrightarrow> ?r = tv\<^sup>2" by (simp add: min_def)
  show ?thesis using val le below above by blast
qed

theorem C1_forward_reward_witness:
  "env_ref (task_moved 0.09) = Some 0 \<and>
   elapsed (task_moved 0.09) \<noteq> 0 \<and>
   target_vel (task_moved 0.09) = Some 1 \<and>
   z_penalty (task_moved 0.09) = 0 \<and>
   horizontal_speed (task_moved 0.09) < 1 \<and>
   (\<exists>r. calc_reward_root_velocity (task_moved 0.09) store0 = Inr r \<and> r < 1)"
proof -
  have e: "env_ref (task_moved 0.09) = Some 0"
    and l: "last_base_pos (task_moved 0.09) = Some (0, 0, 0.5)"
    and c: "current_base_pos (task_moved 0.09) = Some (0.09, 0, 0.5)"
    and tv: "target_vel (task_moved 0.09) = Some 1"
    and z: "z_penalty (task_moved 0.09) = 0"
    by (simp_all add: task_moved_def GoalTask_init_def)
  have el: "elapsed (task_moved 0.09) \<noteq> 0" by (simp add: elapsed_task_moved)
  have s: "horizontal_speed (task_moved 0.09) < 1"
    by (simp add: horizontal_speed_task_moved)
  from C1_forward_reward_clipped_quadratic [OF e l c el tv _ z, of store0] s
  have "\<exists>r. calc_reward_root_velocity (task_moved 0.09) store0 = Inr r \<and> r < 1"
    by auto
  with e el tv z s show ?thesis by simp
qed

text \<open>
  C2. For a task bound by \<open>reset\<close> with its positions set, a non-zero elapsed time, a
  target velocity and a goal position in the world, \<open>reward\<close> returns the sum of the
  goal-distance progress times \<open>goal_coeff\<close>, the forward-velocity term times
  \<open>move_forward_coeff\<close>, the squared motor torques times the time step times
  \<open>energy_weight\<close>, minus \<open>orientation_penalty\<close> times the squared componentwise
  distance of the base quaternion from the reference orientation, plus \<open>alive_reward\<close>,
  plus the subgoal bonus when the subgoal computation is enabled (0 otherwise), plus
  \<open>fall_reward\<close> exactly when \<open>done\<close> is true at this step. The store it leaves is
  the one the subgoal computation left.
\<close>

theorem C2_reward_is_weighted_sum:
  assumes "env_ref t = Some a" and "last_base_pos t = Some l"
    and "current_base_pos t = Some c" and "elapsed t \<noteq> 0"
    and "target_vel t = Some tv" and "goal_pos (world (h a)) = Some g"
    and "(if subgoal_enabled t then calc_reward_subgoal t h else (h, Inr 0)) = (h', Inr bonus)"
    and "GoalTask_done t h' arg = Inr d"
  shows "GoalTask_reward t h arg =
     (h', Inr ((norm3 (sub3 g l) - norm3 (sub3 g c)) / elapsed t * goal_coeff t
             + (tv\<^sup>2 - (min (horizontal_speed t) tv - tv)\<^sup>2
                  - z_penalty t * (vertical_speed t)\<^sup>2) * move_forward_coeff t
             + (\<Sum>x\<leftarrow>GetMotorTorques (robot (h a)). x\<^sup>2) * time_step t * energy_weight t
             - orientation_penalty t *
                 (case init_orientation t of
                    None \<Rightarrow> 0
                  | Some q \<Rightarrow> quat_sq_dist q (GetBaseOrientation (robot (h a))))
             + alive_reward t + of_int bonus
             + (if d then fall_reward t else 0)))"
proof -
  note v = root_velocity_general [OF assms(1-5), of h]
  have gd: "calc_reward_goal_dist t h =
           Inr ((norm3 (sub3 g l) - norm3 (sub3 g c)) / elapsed t)"
    using assms(1-4) assms(6) by (rule goal_dist_formula)
  note ro = rotation_formula [OF assms(1), of h]
  show ?thesis
    using assms(1,7,8)
    by (simp add: GoalTask_reward_def v gd ro energy_reward_def dot_self Let_def)
qed


theorem C2_reward_witness:
  "env_ref task_sub = Some 0 \<and> elapsed task_sub \<noteq> 0 \<and> target_vel task_sub = Some 1 \<and>
   goal_pos (world (store0 0)) = Some (10, 0, 0.5) \<and>
   calc_reward_subgoal task_sub store0 = (store1, Inr 5) \<and>
   GoalTask_done task_sub store1 0 = Inr False \<and>
   GoalTask_reward task_sub store0 0 = (store1, Inr 15.08975)"
proof -
  have g: "goal_pos (world (store0 0)) = Some (10, 0, 0.5)"
    by (simp add: store0_def env0_def world0_def)
  have el: "elapsed task_sub \<noteq> 0" by (simp add: task_sub_fields)
  have sg: "calc_reward_subgoal task_sub store0 = (store1, Inr 5)"
    by (simp add: calc_reward_subgoal_def task_sub_def task_moved_def GoalTask_init_def
        store0_def store1_def env0_def world0_def sub3_def norm3_def)
  then have sg': "(if subgoal_enabled task_sub then calc_reward_subgoal task_sub store0
                   else (store0, Inr 0)) = (store1, Inr 5)"
    by (simp add: task_sub_fields)
  have dn: "GoalTask_done task_sub store1 0 = Inr False"
    by (simp add: GoalTask_done_def task_sub_def task_moved_def GoalTask_init_def store1_def
        env0_def client0_def robot0_def Let_def)
  have hs: "horizontal_speed task_sub = 0.9"
    by (simp add: horizontal_speed_def task_sub_fields norm2_axis)
  have vs: "vertical_speed task_sub = 0"
    by (simp add: vertical_speed_def task_sub_fields)
  have tq: "GetMotorTorques (robot (store0 0)) = [1, 2]"
    by (simp add: store0_def env0_def robot0_def)
  from C2_reward_is_weighted_sum [of task_sub 0 "(0, 0, 0.5)" "(0.09, 0, 0.5)" 1
      store0 "(10, 0, 0.5)" store1 5 0 False] task_sub_fields(1-4) el g sg' dn
  have "GoalTask_reward task_sub store0 0 = (store1, Inr 15.08975)"
    by (simp add: task_sub_fields hs vs tq sub3_def norm3_axis power2_eq_square)
  with task_sub_fields(1,4) el g sg dn show ?thesis by simp
qed

text \<open>
  C3 (as stated, refuted). With \<open>z_constrain\<close> set and the base 0.9 high, \<open>done\<close>
  returns True although the height is not below the fall threshold, the up component of
  the rotation matrix is not below 0.6 and contacts are not checked.
\<close>

theorem C3_height_counterexample:
  "GoalTask_done task_high (\<lambda>_. env_high) 0 = Inr True \<and>
   \<not> done_as_specified task_high env_high"
  by (simp add: GoalTask_done_def done_as_specified_def task_high_def GoalTask_reset_def
      GoalTask_init_def env_high_def env0_def client0_def robot0_def base_height_def
      up_component_def Let_def)


text \<open>
  C3 (amended). For a bound task whose environment returns a rotation matrix, \<open>done\<close>
  returns True exactly when the base height is below \<open>height_fall_coeff\<close>, or
  \<open>z_constrain\<close> is set and the height is above 0.8, or the last entry of the rotation
  matrix is below 0.6, or contacts are checked, some contact is with a body other than
  the ground or of a link that is not a foot, the elapsed time is not zero and the speed
  of the base in all three dimensions is at most 0.05.
\<close>

theorem C3_done_conditions:
  assumes "env_ref t = Some a"
    and "getMatrixFromQuaternion (client (h a)) (GetBaseOrientation (robot (h a))) \<noteq> []"
    and "check_contact t \<Longrightarrow>
           (getContactPoints (client (h a)) (quadruped (robot (h a))) = [] \<or>
            ground (world (h a)) \<noteq> None)"
    and "check_contact t \<Longrightarrow> current_base_pos t = Some c \<and> last_base_pos t = Some l"
  shows "GoalTask_done t h arg =
     Inr (base_height (h a) < height_fall_coeff t \<or>
          (z_constrain t \<and> base_height (h a) > 0.8) \<or>
          up_component (h a) < 0.6 \<or>
          (check_contact t \<and> flagged_contact (h a) \<and> elapsed t \<noteq> 0 \<and> base_speed t \<le> 0.05))"
  using assms by (rule done_eq)

theorem C3_done_conditions_witness:
  "env_ref task_contact = Some 0 \<and> check_contact task_contact \<and>
   ground (world env_contact) \<noteq> None \<and>
   flagged_contact env_contact \<and> base_speed task_contact \<le> 0.05 \<and>
   \<not> base_height env_contact < height_fall_coeff task_contact \<and>
   \<not> up_component env_contact < 0.6 \<and>
   GoalTask_done task_contact (\<lambda>_. env_contact) 0 = Inr True"
proof -
  have e: "env_ref task_contact = Some 0"
    and cc: "check_contact task_contact"
    and z: "\<not> z_constrain task_contact"
    and hf: "height_fall_coeff task_contact = 0.3"
    and pos: "current_base_pos task_contact = Some (0, 0, 0.5) \<and>
              last_base_pos task_contact = Some (0, 0, 0.5)"
    by (simp_all add: task_contact_def GoalTask_reset_def GoalTask_init_def env_contact_def
        env0_def robot0_def)
  have m: "getMatrixFromQuaternion (client env_contact)
             (GetBaseOrientation (robot env_contact)) \<noteq> []"
    by (simp add: env_contact_def env0_def client0_def)
  have g: "ground (world env_contact) \<noteq> None"
    by (simp add: env_contact_def env0_def world0_def)
  have f: "flagged_contact env_contact"
    by (simp add: flagged_contact_def env_contact_def env0_def client0_def robot0_def
        world0_def)
  have el: "elapsed task_contact \<noteq> 0"
    by (simp add: elapsed_def task_contact_def GoalTask_reset_def GoalTask_init_def)
  have sp: "base_speed task_contact \<le> 0.05"
    using pos by (simp add: base_speed_def sub3_def scale3_def norm3_def)
  have hh: "\<not> base_height env_contact < height_fall_coeff task_contact"
    by (simp add: hf base_height_def env_contact_def env0_def client0_def)
  have up: "\<not> up_component env_contact < 0.6"
    by (simp add: up_component_def env_contact_def env0_def client0_def)
  have "GoalTask_done task_contact (\<lambda>_. env_contact) 0 = Inr True"
    using C3_done_conditions [of task_contact 0 "\<lambda>_. env_contact" "(0, 0, 0.5)" "(0, 0, 0.5)" 0]
      e m g pos cc f el sp
    by simp
  with e cc g f sp hh up show ?thesis by simp
qed

text \<open>
  C4. When a task bound to the environment at address \<open>a\<close> calls
  \<open>_calc_reward_subgoal\<close> and the call returns, it returns 5 for each subgoal that is
  within radius 1 of the base and whose achieved flag was not set, and nothing else;
  afterwards the flag of every subgoal within the radius is set, and the flags that were
  set still are. The same call made again at once returns 0 and changes nothing. A flag
  that is set stays set through every sequence of task calls and simulator steps
  (no task operation sets it back), and every later call that returns pays nothing for
  that subgoal, wherever the base is: 5 only for each other subgoal within the radius
  whose flag is not yet set.
\<close>

theorem C4_subgoal_bonus_at_most_once:
  assumes "env_ref t = Some a" and "subgoals (world (h a)) = Some sp"
    and "subgoals_achieved (world (h a)) = Some fl" and "current_base_pos t = Some c"
    and "calc_reward_subgoal t h = (h1, Inr r)"
  shows "r = 5 * int (length (filter
                 (\<lambda>(k, pos). norm3 (sub3 c pos) < 1 \<and> \<not> fl ! k) (enumerate 0 sp))) \<and>
         (\<forall>k. k < length sp \<and> norm3 (sub3 c (sp ! k)) < 1 \<longrightarrow> achieved h1 a k) \<and>
         (\<forall>k. achieved h a k \<longrightarrow> achieved h1 a k) \<and>
         calc_reward_subgoal t h1 = (h1, Inr 0) \<and>
         (\<forall>i es t'. achieved h1 a i \<longrightarrow>
            achieved (snd (run_events es (t', h1))) a i \<and>
            (\<forall>t2 h2 h3 sp2 fl2 c2 r2.
               run_events es (t', h1) = (t2, h2) \<and> env_ref t2 = Some a \<and>
               subgoals (world (h2 a)) = Some sp2 \<and>
               subgoals_achieved (world (h2 a)) = Some fl2 \<and>
               current_base_pos t2 = Some c2 \<and>
               calc_reward_subgoal t2 h2 = (h3, Inr r2) \<longrightarrow>
               r2 = 5 * int (length (filter
                      (\<lambda>(k, pos). k \<noteq> i \<and> norm3 (sub3 c2 pos) < 1 \<and> \<not> fl2 ! k)
                      (enumerate 0 sp2))) \<and>
               achieved h3 a i))"
proof -
  have val: "r = 5 * int (length (filter
                 (\<lambda>(k, pos). norm3 (sub3 c pos) < 1 \<and> \<not> fl ! k) (enumerate 0 sp)))"
    using assms by (rule calc_reward_subgoal_value)
  have sets: "achieved h1 a k" if "k < length sp" "norm3 (sub3 c (sp ! k)) < 1" for k
    using assms(1,2,4,5) that by (rule calc_reward_subgoal_sets)
  have keeps: "achieved h1 a k" if "achieved h a k" for k
    using calc_reward_subgoal_keeps [OF that, of t] assms(5) by simp
  have sp1: "subgoals (world (h1 a)) = Some sp"
    using assms(1,2,5) by (rule calc_reward_subgoal_frame)
  have again: "calc_reward_subgoal t h1 = (h1, Inr 0)"
    using assms(1) sp1 assms(4) sets by (rule calc_reward_subgoal_idle)
  have later: "achieved (snd (run_events es (t', h1))) a i \<and>
            (\<forall>t2 h2 h3 sp2 fl2 c2 r2.
               run_events es (t', h1) = (t2, h2) \<and> env_ref t2 = Some a \<and>
               subgoals (world (h2 a)) = Some sp2 \<and>
               subgoals_achieved (world (h2 a)) = Some fl2 \<and>
               current_base_pos t2 = Some c2 \<and>
               calc_reward_subgoal t2 h2 = (h3, Inr r2) \<longrightarrow>
               r2 = 5 * int (length (filter
                      (\<lambda>(k, pos). k \<noteq> i \<and> norm3 (sub3 c2 pos) < 1 \<and> \<not> fl2 ! k)
                      (enumerate 0 sp2))) \<and>
               achieved h3 a i)" if "achieved h1 a i" for i es t'
    using that by (rule achieved_stays)
  from val sets keeps again later show ?thesis by blast
qed

theorem C4_subgoal_bonus_witness:
  "env_ref (task_moved 0.09) = Some 0 \<and>
   subgoals (world (store0 0)) = Some [(1, 0, 0.5), (5, 0, 0.5)] \<and>
   subgoals_achieved (world (store0 0)) = Some [False, False] \<and>
   current_base_pos (task_moved 0.09) = Some (0.09, 0, 0.5) \<and>
   norm3 (sub3 (0.09, 0, 0.5) ([(1, 0, 0.5), (5, 0, 0.5)] ! 0)) < 1 \<and>
   calc_reward_subgoal (task_moved 0.09) store0 = (store1, Inr 5) \<and>
   achieved store1 0 0 \<and>
   calc_reward_subgoal (task_moved 0.09) store1 = (store1, Inr 0) \<and>
   achieved (snd (run_events [Call (Update 0), Sim 0 robot0 client0, Call (Reward 0)]
                    (task_moved 0.09, store1))) 0 0"
proof -
  have pre: "env_ref (task_moved 0.09) = Some 0"
    "subgoals (world (store0 0)) = Some [(1, 0, 0.5), (5, 0, 0.5)]"
    "subgoals_achieved (world (store0 0)) = Some [False, False]"
    "current_base_pos (task_moved 0.09) = Some (0.09, 0, 0.5)"
    by (simp_all add: task_moved_def GoalTask_init_def store0_def env0_def world0_def)
  have near: "norm3 (sub3 (0.09, 0, 0.5) ([(1, 0, 0.5), (5, 0, 0.5)] ! 0)) < 1"
    by (simp add: sub3_def norm3_def)
  note c4 = C4_subgoal_bonus_at_most_once [OF pre subgoal_first_call]
  from c4 near have ach: "achieved store1 0 0" by simp
  from c4 have again: "calc_reward_subgoal (task_moved 0.09) store1 = (store1, Inr 0)"
    by blast
  from c4 ach
  have later: "achieved (snd (run_events
      [Call (Update 0), Sim 0 robot0 client0, Call (Reward 0)]
      (task_moved 0.09, store1))) 0 0"
    by blast
  from pre near subgoal_first_call ach again later show ?thesis by simp
qed

text \<open>
  C5 (as stated, refuted). Doubling \<open>num_action_repeat\<close> doubles the elapsed time and
  halves the goal-distance term, but leaves the energy term and the orientation term as
  they were; and a different position delta leaves them as they were too.
\<close>

theorem C5_unscaled_terms_counterexample:
  "elapsed (task_moved 0.1) = 0.1 \<and> elapsed task_slow = 0.2 \<and>
   calc_reward_goal_dist (task_moved 0.1) store0 = Inr 1 \<and>
   calc_reward_goal_dist task_slow store0 = Inr 0.5 \<and>
   energy_reward (task_moved 0.1) env0 = 0.05 \<and>
   energy_reward task_slow env0 = 0.05 \<and>
   energy_reward (task_moved 0.2) env0 = 0.05 \<and>
   calc_reward_rotation (task_moved 0.1) store0 = Inr 0.4 \<and>
   calc_reward_rotation task_slow store0 = Inr 0.4 \<and>
   calc_reward_rotation (task_moved 0.2) store0 = Inr 0.4"
  by (simp add: elapsed_def task_slow_def task_moved_def GoalTask_init_def
      calc_reward_goal_dist_def calc_reward_rotation_def energy_reward_def dot_def
      quat_sq_dist_def store0_def env0_def world0_def robot0_def sub3_def norm3_axis Let_def
      power2_eq_square)

text \<open>
  C5 (amended). The goal-distance term is the decrease of the distance to the goal over
  the elapsed time, and the forward-velocity term is computed from the horizontal and
  vertical position deltas over the elapsed time. The energy term is the squared motor
  torques times the time step, and the orientation term is the squared distance of the
  base quaternion from the reference orientation: neither reads the positions or
  \<open>num_action_repeat\<close>, and the orientation term does not read the time step either.
\<close>

theorem C5_scaling_of_the_terms:
  assumes "env_ref t = Some a" and "last_base_pos t = Some l"
    and "current_base_pos t = Some c" and "elapsed t \<noteq> 0"
    and "target_vel t = Some tv" and "goal_pos (world (h a)) = Some g"
  shows "calc_reward_goal_dist t h =
           Inr ((norm3 (sub3 g l) - norm3 (sub3 g c)) / elapsed t) \<and>
         calc_reward_root_velocity t h =
           Inr (tv\<^sup>2 - (min (horizontal_speed t) tv - tv)\<^sup>2
                - z_penalty t * (vertical_speed t)\<^sup>2) \<and>
         energy_reward t (h a) = (\<Sum>x\<leftarrow>GetMotorTorques (robot (h a)). x\<^sup>2) * time_step t \<and>
         calc_reward_rotation t h =
           Inr (case init_orientation t of
                  None \<Rightarrow> 0
                | Some q \<Rightarrow> quat_sq_dist q (GetBaseOrientation (robot (h a)))) \<and>
         (\<forall>l' c' n.
            energy_reward (t\<lparr> last_base_pos := l', current_base_pos := c',
                              num_action_repeat := n \<rparr>) (h a) = energy_reward t (h a)) \<and>
         (\<forall>l' c' n s.
            calc_reward_rotation (t\<lparr> last_base_pos := l', current_base_pos := c',
                                     num_action_repeat := n, time_step := s \<rparr>) h =
            calc_reward_rotation t h)"
proof (intro conjI allI)
  show "calc_reward_goal_dist t h =
           Inr ((norm3 (sub3 g l) - norm3 (sub3 g c)) / elapsed t)"
    using assms(1-4) assms(6) by (rule goal_dist_formula)
  show "calc_reward_root_velocity t h =
           Inr (tv\<^sup>2 - (min (horizontal_speed t) tv - tv)\<^sup>2
                - z_penalty t * (vertical_speed t)\<^sup>2)"
    using assms(1-5) by (rule root_velocity_general)
  show "energy_reward t (h a) = (\<Sum>x\<leftarrow>GetMotorTorques (robot (h a)). x\<^sup>2) * time_step t"
    by (simp add: energy_reward_def dot_self)
  show "calc_reward_rotation t h =
           Inr (case init_orientation t of
                  None \<Rightarrow> 0
                | Some q \<Rightarrow> quat_sq_dist q (GetBaseOrientation (robot (h a))))"
    using assms(1) by (rule rotation_formula)
next
  fix l' c' n
  show "energy_reward (t\<lparr> last_base_pos := l', current_base_pos := c',
                              num_action_repeat := n \<rparr>) (h a) = energy_reward t (h a)"
    by (simp add: energy_reward_def)
next
  fix l' c' n s
  show "calc_reward_rotation (t\<lparr> last_base_pos := l', current_base_pos := c',
                                     num_action_repeat := n, time_step := s \<rparr>) h =
            calc_reward_rotation t h"
    by (cases "env_ref t") (simp_all add: calc_reward_rotation_def Let_def)
qed

theorem C5_scaling_witness:
  "env_ref (task_moved 0.1) = Some 0 \<and> elapsed (task_moved 0.1) \<noteq> 0 \<and>
   target_vel (task_moved 0.1) = Some 1 \<and>
   goal_pos (world (store0 0)) = Some (10, 0, 0.5) \<and>
   calc_reward_goal_dist (task_moved 0.1) store0 = Inr 1 \<and>
   calc_reward_root_velocity (task_moved 0.1) store0 = Inr 1 \<and>
   energy_reward (task_moved 0.1) (store0 0) = 0.05 \<and>
   calc_reward_rotation (task_moved 0.1) store0 = Inr 0.4"
proof -
  have e: "env_ref (task_moved 0.1) = Some 0"
    and l: "last_base_pos (task_moved 0.1) = Some (0, 0, 0.5)"
    and c: "current_base_pos (task_moved 0.1) = Some (0.1, 0, 0.5)"
    and tv: "target_vel (task_moved 0.1) = Some 1"
    and more: "z_penalty (task_moved 0.1) = 0" "time_step (task_moved 0.1) = 0.01"
      "init_orientation (task_moved 0.1) = Some (0, 0, 0, 1)"
    by (simp_all add: task_moved_def GoalTask_init_def)
  have el: "elapsed (task_moved 0.1) \<noteq> 0" by (simp add: elapsed_task_moved)
  have g: "goal_pos (world (store0 0)) = Some (10, 0, 0.5)"
    by (simp add: store0_def env0_def world0_def)
  have rb: "GetMotorTorques (robot (store0 0)) = [1, 2]"
      "GetBaseOrientation (robot (store0 0)) = (0, 0, 0.6, 0.8)"
    by (simp_all add: store0_def env0_def robot0_def)
  from C5_scaling_of_the_terms [of "task_moved 0.1" 0 "(0, 0, 0.5)" "(0.1, 0, 0.5)" 1
      store0 "(10, 0, 0.5)"] e l c el tv g
  have "calc_reward_goal_dist (task_moved 0.1) store0 = Inr 1 \<and>
   calc_reward_root_velocity (task_moved 0.1) store0 = Inr 1 \<and>
   energy_reward (task_moved 0.1) (store0 0) = 0.05 \<and>
   calc_reward_rotation (task_moved 0.1) store0 = Inr 0.4"
    by (simp add: more rb elapsed_task_moved horizontal_speed_task_moved sub3_def norm3_axis
        quat_sq_dist_def power2_eq_square)
  with e el tv g show ?thesis by simp
qed




text \<open>
  C7. When the constructor of the base class leaves \<open>_robot\<close> unassigned or \<open>None\<close>
  (it is handed no robot), then after any number of \<open>on_reset\<close> calls, one at least,
  \<open>_robot\<close> is as the constructor left it and \<open>_get_observation\<close> raises an
  \<open>AttributeError\<close> in every store: on the sensor's missing \<open>_robot\<close>, or on the
  \<open>quadruped\<close> of \<open>None\<close>.
\<close>

theorem C7_force_sensor_never_observes:
  assumes "base = Unset \<or> base = PyNone"
  shows "fs_robot (foldl ForceSensor_on_reset (ForceSensor_init base gd nm) (e # es)) = base \<and>
         ForceSensor_get_observation
           (foldl ForceSensor_on_reset (ForceSensor_init base gd nm) (e # es)) h =
         Inl (if base = Unset then AttributeError ''ForceSensor'' ''_robot''
              else AttributeError ''NoneType'' ''quadruped'')"
proof -
  have st: "foldl ForceSensor_on_reset (ForceSensor_init base gd nm) (e # es) =
            (ForceSensor_init base gd nm)\<lparr> fs_env := Obj (last (e # es)) \<rparr>"
    by (rule force_resets)
  show ?thesis
    unfolding st using assms
    by (auto simp: ForceSensor_init_def ForceSensor_get_observation_def)
qed

theorem C7_force_sensor_witness:
  "ForceSensor_get_observation
     (foldl ForceSensor_on_reset (ForceSensor_init Unset 24 ''Force'') [0, 1]) store0 =
   Inl (AttributeError ''ForceSensor'' ''_robot'') \<and>
   ForceSensor_get_observation
     (foldl ForceSensor_on_reset (ForceSensor_init PyNone 24 ''Force'') [0]) store0 =
   Inl (AttributeError ''NoneType'' ''quadruped'')"
  using C7_force_sensor_never_observes [of Unset 24 "''Force''" 0 "[1]" store0]
    C7_force_sensor_never_observes [of PyNone 24 "''Force''" 0 "[]" store0]
  by simp

text \<open>
  C8. A freshly constructed \<open>LastActionSensor\<close>, \<open>GoalPosSensor\<close> or \<open>ForceSensor\<close>
  has its environment set to \<open>None\<close>, and its \<open>_get_observation\<close> raises an
  \<open>AttributeError\<close> for the attribute it reads of \<open>None\<close>, in every store.
\<close>

theorem C8_unbound_sensors_fail:
  "las_env (LastActionSensor_init n lo hi nm) = PyNone \<and>
   LastActionSensor_get_observation (LastActionSensor_init n lo hi nm) h =
     Inl (AttributeError ''NoneType'' ''last_action'') \<and>
   gps_env (GoalPosSensor_init gd nm) = PyNone \<and>
   GoalPosSensor_get_observation (GoalPosSensor_init gd nm) h =
     Inl (AttributeError ''NoneType'' ''_robot'') \<and>
   fs_env (ForceSensor_init base gd nm) = PyNone \<and>
   ForceSensor_get_observation (ForceSensor_init base gd nm) h =
     Inl (AttributeError ''NoneType'' ''_pybullet_client'')"
  by (simp add: LastActionSensor_init_def LastActionSensor_get_observation_def
      GoalPosSensor_init_def GoalPosSensor_get_observation_def
      ForceSensor_init_def ForceSensor_get_observation_def)

text \<open>
  C9. Whenever the driver gets as far as requesting the evaluation environment, it
  requests it with \<open>max 2 vec_env_nums\<close> instances and \<open>max 2 proc_nums\<close> processes,
  both at least 2; and with any other two numbers on the command line, below 2 or not,
  it gets as far and leaves the same store, again with at least 2 of each.
\<close>

theorem C9_eval_parallelism_at_least_two:
  assumes "experiment_driver h p q a = Inr (h', train, eval)"
  shows "call_vec_env_nums eval = max 2 (vec_env_nums a) \<and>
         call_proc_nums eval = max 2 (proc_nums a) \<and>
         2 \<le> call_vec_env_nums eval \<and> 2 \<le> call_proc_nums eval \<and>
         (\<forall>v w. \<exists>train' eval'.
            experiment_driver h p q (a\<lparr> vec_env_nums := v, proc_nums := w \<rparr>) =
              Inr (h', train', eval') \<and>
            call_vec_env_nums eval' = max 2 v \<and> call_proc_nums eval' = max 2 w \<and>
            2 \<le> call_vec_env_nums eval' \<and> 2 \<le> call_proc_nums eval')"
proof -
  from driver_parts [OF assms] obtain name cfg eval_name eval_cfg where
    parts: "getitem h (VDict p) ''env_name'' = Inr name"
      "getitem h (VDict p) ''env'' = Inr cfg"
      "eval_setup h q = Inr h'"
      "getitem h' (VDict q) ''env_name'' = Inr eval_name"
      "getitem h' (VDict q) ''env'' = Inr eval_cfg"
    and ev: "eval = \<lparr> call_env_name = eval_name, call_env_params = eval_cfg,
              call_vec_env_nums = max 2 (vec_env_nums a),
              call_proc_nums = max 2 (proc_nums a) \<rparr>"
    by blast
  have other: "\<exists>train' eval'.
            experiment_driver h p q (a\<lparr> vec_env_nums := v, proc_nums := w \<rparr>) =
              Inr (h', train', eval') \<and>
            call_vec_env_nums eval' = max 2 v \<and> call_proc_nums eval' = max 2 w \<and>
            2 \<le> call_vec_env_nums eval' \<and> 2 \<le> call_proc_nums eval'" for v w
    using driver_from_parts [OF parts, of "a\<lparr> vec_env_nums := v, proc_nums := w \<rparr>"]
    by simp
  from ev other show ?thesis by simp
qed

theorem C9_eval_parallelism_witness:
  "vec_env_nums args0 = 1 \<and> proc_nums args0 = 0 \<and>
   (\<exists>h' train eval.
      experiment_driver (dict_copy cfg0 0 3) 0 3 args0 = Inr (h', train, eval) \<and>
      call_vec_env_nums train = 1 \<and> call_proc_nums train = 0 \<and>
      call_vec_env_nums eval = 2 \<and> call_proc_nums eval = 2)"
proof -
  from run_cfg0 obtain h' train eval where
    run: "experiment_driver (dict_copy cfg0 0 3) 0 3 args0 = Inr (h', train, eval)"
    and tr: "call_vec_env_nums train = 1" "call_proc_nums train = 0"
    by (auto simp: run_module_def)
  have a: "vec_env_nums args0 = 1" "proc_nums args0 = 0" by (simp_all add: args0_def)
  from C9_eval_parallelism_at_least_two [OF run] a
  have "call_vec_env_nums eval = 2 \<and> call_proc_nums eval = 2" by simp
  with run tr a show ?thesis by blast
qed

text \<open>
  C10. In a well-formed configuration, after \<open>eval_params = params.copy()\<close> the entries
  \<open>env\<close> of \<open>eval_params\<close> and of \<open>params\<close> are the same dictionary, and both
  environments are requested with it. After the driver's evaluation setup, read from
  \<open>params\<close>: \<open>params["env"]["horizon"]\<close> is 2000,
  \<open>params["env"]["env_build"]["reset_frame_idx_each_step"]\<close> is True, and each of
  \<open>curriculum\<close>, \<open>interpolation\<close> and \<open>fixed_delay_observation\<close> that was present in
  \<open>params["env"]["env_build"]\<close> is False.
\<close>

theorem C10_eval_setup_mutates_training_config:
  assumes "distinct [p, q, e, b]"
    and "map_of (h p) ''env'' = Some (VDict e)"
    and "map_of (h e) ''env_build'' = Some (VDict b)"
    and "run_module h p q a = Inr (h', train, eval)"
  shows "getitem (dict_copy h p q) (VDict q) ''env'' = Inr (VDict e) \<and>
         getitem (dict_copy h p q) (VDict p) ''env'' = Inr (VDict e) \<and>
         call_env_params train = VDict e \<and> call_env_params eval = VDict e \<and>
         getitem h' (VDict p) ''env'' = Inr (VDict e) \<and>
         getitem h' (VDict e) ''horizon'' = Inr (VInt 2000) \<and>
         get_env_build h' p ''reset_frame_idx_each_step'' = Inr (VBool True) \<and>
         (\<forall>k \<in> {''curriculum'', ''interpolation'', ''fixed_delay_observation''}.
            map_of (h b) k \<noteq> None \<longrightarrow> get_env_build h' p k = Inr (VBool False))"
proof -
  let ?h = "dict_copy h p q"
  have tree: "config_tree ?h p q e b"
    using assms(1-3) by (rule config_tree_copy)
  from assms(4) have run: "experiment_driver ?h p q a = Inr (h', train, eval)"
    by (simp add: run_module_def)
  from driver_parts [OF run] obtain cfg eval_cfg where
    cfg: "getitem ?h (VDict p) ''env'' = Inr cfg"
    and es: "eval_setup ?h q = Inr h'"
    and ecfg: "getitem h' (VDict q) ''env'' = Inr eval_cfg"
    and tr: "call_env_params train = cfg" and ev: "call_env_params eval = eval_cfg"
    by auto
  from tree have d: "p \<noteq> b" "q \<noteq> b" "e \<noteq> b" "p \<noteq> e" "q \<noteq> e" "p \<noteq> q"
    and pe: "map_of (?h p) ''env'' = Some (VDict e)"
    and qe: "map_of (?h q) ''env'' = Some (VDict e)"
    and eb: "map_of (?h e) ''env_build'' = Some (VDict b)"
    by (auto simp: config_tree_def)
  have hb: "?h b = h b" using d by (simp add: dict_copy_def)
  note st = eval_setup_tree [OF tree es]
  have tree': "config_tree h' p q e b"
    using tree st by (simp add: config_tree_def update_conv')
  have c1: "getitem ?h (VDict q) ''env'' = Inr (VDict e)"
    and c2: "getitem ?h (VDict p) ''env'' = Inr (VDict e)"
    using pe qe by (simp_all add: getitem_def)
  have c3: "cfg = VDict e" using cfg c2 by simp
  have c4: "eval_cfg = VDict e"
    using ecfg tree' by (simp add: getitem_def config_tree_def)
  have c5: "getitem h' (VDict p) ''env'' = Inr (VDict e)"
    using tree' by (simp add: getitem_def config_tree_def)
  have c6: "getitem h' (VDict e) ''horizon'' = Inr (VInt 2000)"
    using st by (simp add: getitem_def update_conv')
  have c7: "get_env_build h' p ''reset_frame_idx_each_step'' = Inr (VBool True)"
    using st by (simp add: get_env_build_tree_p [OF tree'] getitem_def)
  have c8: "\<forall>k \<in> {''curriculum'', ''interpolation'', ''fixed_delay_observation''}.
            map_of (h b) k \<noteq> None \<longrightarrow> get_env_build h' p k = Inr (VBool False)"
    using st hb by (simp add: get_env_build_tree_p [OF tree'] getitem_def)
  from c1 c2 c3 c4 c5 c6 c7 c8 tr ev show ?thesis by simp
qed


theorem C10_eval_setup_witness:
  "getitem cfg0 (VDict 1) ''horizon'' = Inr (VInt 1000) \<and>
   get_env_build cfg0 0 ''curriculum'' = Inr (VBool True) \<and>
   (\<exists>h' train eval.
      run_module cfg0 0 3 args0 = Inr (h', train, eval) \<and>
      getitem h' (VDict 0) ''env'' = Inr (VDict 1) \<and>
      getitem h' (VDict 1) ''horizon'' = Inr (VInt 2000) \<and>
      get_env_build h' 0 ''reset_frame_idx_each_step'' = Inr (VBool True) \<and>
      get_env_build h' 0 ''curriculum'' = Inr (VBool False))"
proof -
  from run_cfg0 obtain h' train eval where
    run: "run_module cfg0 0 3 args0 = Inr (h', train, eval)"
    by blast
  have d: "distinct [0, 3, 1, 2::nat]" by simp
  have pe: "map_of (cfg0 0) ''env'' = Some (VDict 1)"
    and eb: "map_of (cfg0 1) ''env_build'' = Some (VDict 2)"
    and cu: "map_of (cfg0 2) ''curriculum'' \<noteq> None"
    by (simp_all add: cfg0_def)
  have before: "getitem cfg0 (VDict 1) ''horizon'' = Inr (VInt 1000)"
    "get_env_build cfg0 0 ''curriculum'' = Inr (VBool True)"
    by (simp_all add: cfg0_def getitem_def get_env_build_def env_build_def py_bind_def)
  from C10_eval_setup_mutates_training_config [OF d pe eb run] cu
  have "getitem h' (VDict 0) ''env'' = Inr (VDict 1) \<and>
      getitem h' (VDict 1) ''horizon'' = Inr (VInt 2000) \<and>
      get_env_build h' 0 ''reset_frame_idx_each_step'' = Inr (VBool True) \<and>
      get_env_build h' 0 ''curriculum'' = Inr (VBool False)"
    by simp
  with run before show ?thesis by blast
qed


end
